theory Spec2Isabelle
  imports Complex_Main "HOL-Library.Sublist" "HOL-Library.AList"
begin

section \<open>Python values, exceptions and the exchange library\<close>

text \<open>
  The exception classes that \<^verbatim>\<open>bybit.py\<close> names or can provoke. \<^verbatim>\<open>ccxt.RequestTimeout\<close>
  is a subclass of \<^verbatim>\<open>ccxt.NetworkError\<close>; every class listed is a subclass of Python's
  \<^verbatim>\<open>Exception\<close>, so the last \<^verbatim>\<open>except Exception\<close> clause of each method catches
  whatever the first two clauses let through.
\<close>

datatype exc_class =
    NetworkError | RequestTimeout | ExchangeError
  | ValueError | AttributeError | TypeError | ZeroDivisionError | UnboundLocalError
  | OtherException

fun isinstance_NetworkError :: "exc_class \<Rightarrow> bool" where
  "isinstance_NetworkError NetworkError = True"
| "isinstance_NetworkError RequestTimeout = True"
| "isinstance_NetworkError _ = False"

fun isinstance_ExchangeError :: "exc_class \<Rightarrow> bool" where
  "isinstance_ExchangeError ExchangeError = True"
| "isinstance_ExchangeError _ = False"

text \<open>
  A Python object that takes part in an \<^verbatim>\<open>==\<close> comparison of the source: the caught
  exception \<^verbatim>\<open>e\<close> is an instance, \<^verbatim>\<open>ccxt.RequestTimeout\<close> is the class object itself.
  Neither defines \<^verbatim>\<open>__eq__\<close>, so \<^verbatim>\<open>==\<close> is identity and an instance never equals a class.
\<close>

datatype pyobj = Instance exc_class | Class exc_class

definition py_eq :: "pyobj \<Rightarrow> pyobj \<Rightarrow> bool" where
  "py_eq a b = (a = b)"

text \<open>The outcome of a call: a returned value or a raised exception.\<close>

datatype 'a result = Return 'a | Raise exc_class

section \<open>Python floats\<close>

text \<open>
  A Python \<^verbatim>\<open>float\<close> is an IEEE 754 binary64 value: a finite number (a rational the format
  represents), an infinity or a NaN. Every arithmetic result is the exact result rounded to
  the nearest representable value, ties to the even significand. The sign of a zero is not
  modelled: no comparison and no result of the methods depends on it, and the integer
  literal \<^verbatim>\<open>0\<close> of the source behaves as the float zero (\<^verbatim>\<open>0 == 0.0\<close>).
\<close>

datatype pyfloat = Fin rat | PosInf | NegInf | NaN

definition pow2 :: "int \<Rightarrow> rat" where
  "pow2 e = (if 0 \<le> e then 2 ^ nat e else 1 / 2 ^ nat (- e))"

text \<open>The number of binary digits of a positive integer.\<close>

function bit_length :: "int \<Rightarrow> int" where
  "bit_length n = (if n \<le> 0 then 0 else 1 + bit_length (n div 2))"
  by pat_completeness auto
termination
  by (relation "measure nat") auto

declare bit_length.simps [simp del]

text \<open>The integer part of the binary logarithm of a positive rational.\<close>

definition floor_log2 :: "rat \<Rightarrow> int" where
  "floor_log2 a =
     (case quotient_of a of
        (n, d) \<Rightarrow>
          (let k = bit_length n - bit_length d
           in if pow2 k \<le> a then k else k - 1))"

text \<open>Rounding to the nearest integer, a tie going to the even neighbour.\<close>

definition round_half_even :: "rat \<Rightarrow> int" where
  "round_half_even x =
     (let f = \<lfloor>x\<rfloor>; d = x - of_int f
      in if d < 1 / 2 then f else if 1 / 2 < d then f + 1 else if even f then f else f + 1)"

text \<open>
  Rounding a rational to binary64: a significand \<open>m\<close> of at most 53 bits times
  \<open>2 ^ e\<close>, with \<open>e\<close> at least \<open>-1074\<close> (subnormal numbers); the result is an infinity
  when the rounded value reaches \<open>2 ^ 1024\<close>, that is \<open>2 ^ 53 * 2 ^ 971\<close>.
\<close>

definition to_double :: "rat \<Rightarrow> pyfloat" where
  "to_double q =
     (if q = 0 then Fin 0
      else
        (let a = \<bar>q\<bar>;
             e = max (floor_log2 a - 52) (- 1074);
             m = round_half_even (a / pow2 e)
         in if 971 < e \<or> (e = 971 \<and> 2 ^ 53 \<le> m) then (if 0 < q then PosInf else NegInf)
            else Fin (if 0 < q then of_int m * pow2 e else - (of_int m * pow2 e))))"

fun float_neg :: "pyfloat \<Rightarrow> pyfloat" where
  "float_neg (Fin a) = Fin (- a)"
| "float_neg PosInf = NegInf"
| "float_neg NegInf = PosInf"
| "float_neg NaN = NaN"

fun float_add :: "pyfloat \<Rightarrow> pyfloat \<Rightarrow> pyfloat" where
  "float_add (Fin a) (Fin b) = to_double (a + b)"
| "float_add NaN y = NaN"
| "float_add x NaN = NaN"
| "float_add PosInf NegInf = NaN"
| "float_add NegInf PosInf = NaN"
| "float_add (Fin a) y = y"
| "float_add x y = x"

definition float_sub :: "pyfloat \<Rightarrow> pyfloat \<Rightarrow> pyfloat" where
  "float_sub x y = float_add x (float_neg y)"

fun float_mul :: "pyfloat \<Rightarrow> pyfloat \<Rightarrow> pyfloat" where
  "float_mul (Fin a) (Fin b) = to_double (a * b)"
| "float_mul NaN y = NaN"
| "float_mul x NaN = NaN"
| "float_mul (Fin a) y = (if a = 0 then NaN else if 0 < a then y else float_neg y)"
| "float_mul x (Fin b) = (if b = 0 then NaN else if 0 < b then x else float_neg x)"
| "float_mul x y = (if x = y then PosInf else NegInf)"

text \<open>
  IEEE division by a divisor that is not zero; Python never divides by zero
  (\<open>py_truediv\<close> below raises first).
\<close>

fun float_div :: "pyfloat \<Rightarrow> pyfloat \<Rightarrow> pyfloat" where
  "float_div (Fin a) (Fin b) = to_double (a / b)"
| "float_div NaN y = NaN"
| "float_div x NaN = NaN"
| "float_div (Fin a) y = Fin 0"
| "float_div x (Fin b) = (if 0 < b then x else float_neg x)"
| "float_div x y = NaN"

text \<open>\<^verbatim>\<open>x == 0\<close> on a float.\<close>

definition py_eq_zero :: "pyfloat \<Rightarrow> bool" where
  "py_eq_zero x = (x = Fin 0)"

text \<open>A number or Python's \<^verbatim>\<open>None\<close>, as stored in the allocation dictionary.\<close>

datatype pyval = PyNone | PyFloat pyfloat

abbreviation PyNum :: "rat \<Rightarrow> pyval" where
  "PyNum q \<equiv> PyFloat (Fin q)"

text \<open>
  Balances and prices of the exchange payloads are only passed on, never computed with:
  they are modelled by their rational values, and \<^verbatim>\<open>Decimal(str(x))\<close> is the identity on
  them. The amounts and costs of fills are computed with, as floats (the type the signature
  and the docstring of \<^verbatim>\<open>get_trade_value_usd\<close> name). A field of a fill is absent from the
  dictionary, present with the value \<^verbatim>\<open>None\<close>, or present with a number.
\<close>

datatype json_number = Absent | Null | Number pyfloat

record fill =
  side :: "string option"
  amount :: json_number
  cost :: json_number

record order =
  o_id :: string
  o_symbol :: string
  o_side :: string
  o_amount :: rat
  o_price :: rat

record ticker =
  bid :: "rat option"
  ask :: "rat option"
  last_price :: "rat option"

type_synonym balance = "string \<rightharpoonup> (string \<rightharpoonup> rat)"

type_synonym markets = "string list"

record strategy_config =
  config_symbol :: string
  config_currency :: string

text \<open>
  Everything the methods do to the outside world is recorded, in order, in a history of
  events. The exchange answers a call as a function of the history so far, which makes the
  answers of a deterministic exchange fully general (first a timeout, then success, ...).
\<close>

datatype event =
    GetApiKeys string
  | NewExchange string string nat
  | SetSandboxMode bool
  | LoadMarkets
  | CreateLimitOrder string string rat rat
  | FetchOpenOrders string
  | FetchBalance
  | FetchTicker string
  | FetchMyTrades string
  | GetActiveStrategyConfigs
  | Sleep nat

type_synonym history = "event list"

text \<open>The \<^verbatim>\<open>ccxt\<close> exchange object held in \<^verbatim>\<open>self.client\<close>.\<close>

record exchange =
  ccxt_id :: string
  ccxt_set_sandbox_mode :: "bool \<Rightarrow> history \<Rightarrow> unit result"
  ccxt_load_markets :: "history \<Rightarrow> markets result"
  ccxt_create_limit_order :: "string \<Rightarrow> string \<Rightarrow> rat \<Rightarrow> rat \<Rightarrow> history \<Rightarrow> order result"
  ccxt_fetch_open_orders :: "string \<Rightarrow> history \<Rightarrow> order list result"
  ccxt_fetch_balance :: "history \<Rightarrow> balance result"
  ccxt_fetch_ticker :: "string \<Rightarrow> history \<Rightarrow> ticker result"
  ccxt_fetch_my_trades :: "string \<Rightarrow> history \<Rightarrow> fill list result"

text \<open>
  The collaborators of \<^verbatim>\<open>chalicelib\<close> and the \<^verbatim>\<open>ccxt.bybit\<close> constructor, which are not
  part of the two source files, are parameters: \<^verbatim>\<open>utils.APIKeyManager\<close> with its two
  getters (one call yielding key and secret), the constructor (key, secret, timeout) and
  \<^verbatim>\<open>trade_processing.get_active_strategy_configs\<close>.
\<close>

record environment =
  api_key_manager :: "string \<Rightarrow> history \<Rightarrow> (string \<times> string) result"
  ccxt_bybit :: "string \<Rightarrow> string \<Rightarrow> nat \<Rightarrow> history \<Rightarrow> exchange result"
  get_active_strategy_configs :: "history \<Rightarrow> strategy_config list result"

text \<open>The receiver: an instance of \<^verbatim>\<open>BybitClient\<close>.\<close>

record bybit_client =
  client :: "exchange option"
  markets_attr :: "markets option"
  base_currency :: string

section \<open>TradeMatcher: the scan of \<^verbatim>\<open>get_most_recent_trade\<close>\<close>

text \<open>
  Python's \<^verbatim>\<open>trades[-i:]\<close>: for \<^verbatim>\<open>i = 0\<close> it is \<^verbatim>\<open>trades[0:]\<close>, the whole list; for
  \<^verbatim>\<open>i\<close> beyond the length the start is clamped to the front.
\<close>

definition slice_last :: "'a list \<Rightarrow> nat \<Rightarrow> 'a list" where
  "slice_last trades i = (if i = 0 then trades else drop (length trades - i) trades)"

text \<open>
  The \<^verbatim>\<open>for i, trade in enumerate(reversed(trades))\<close> loop with its \<^verbatim>\<open>else\<close> branch:
  the last argument is what remains of the reversed list, \<^verbatim>\<open>i\<close> the index reached.
\<close>

fun scan_reversed :: "fill list \<Rightarrow> nat \<Rightarrow> string option \<Rightarrow> fill list \<Rightarrow> fill list" where
  "scan_reversed trades i prev_trade_side [] = trades"
| "scan_reversed trades i prev_trade_side (trade # rest) =
     (if prev_trade_side = Some ''buy'' \<and> side trade = Some ''sell''
      then slice_last trades i
      else if side trade = Some ''buy''
      then scan_reversed trades (Suc i) (Some ''buy'') rest
      else if side trade = Some ''sell''
      then scan_reversed trades (Suc i) (Some ''sell'') rest
      else scan_reversed trades (Suc i) prev_trade_side rest)"

text \<open>
  What the \<^verbatim>\<open>try\<close> block of \<^verbatim>\<open>get_most_recent_trade\<close> returns for the fetched list:
  \<^verbatim>\<open>if trades: <the scan> else: return []\<close>.
\<close>

definition match_trades :: "fill list \<Rightarrow> fill list" where
  "match_trades trades = (if trades \<noteq> [] then scan_reversed trades 0 None (rev trades) else [])"

text \<open>The body of the \<^verbatim>\<open>try\<close> block of \<^verbatim>\<open>get_most_recent_trade\<close>.\<close>

definition get_most_recent_trade_try ::
  "bybit_client \<Rightarrow> string \<Rightarrow> history \<Rightarrow> fill list result \<times> history" where
  "get_most_recent_trade_try self symbol h =
     (case client self of
        None \<Rightarrow> (Raise AttributeError, h)
      | Some ex \<Rightarrow>
          (case ccxt_fetch_my_trades ex symbol h of
             Raise e \<Rightarrow> (Raise e, h @ [FetchMyTrades symbol])
           | Return trades \<Rightarrow>
               (Return (match_trades trades), h @ [FetchMyTrades symbol])))"

text \<open>
  The retry loop of \<^verbatim>\<open>get_most_recent_trade\<close>. A network error sleeps and retries, an
  exchange error is logged and raised again, as is any other exception; when the loop ends
  the function falls off its end and returns \<^verbatim>\<open>None\<close>.
\<close>

function get_most_recent_trade_loop ::
  "bybit_client \<Rightarrow> string \<Rightarrow> int \<Rightarrow> int \<Rightarrow> history \<Rightarrow> fill list option result \<times> history" where
  "get_most_recent_trade_loop self symbol max_retries retries h =
     (if retries < max_retries then
        (case get_most_recent_trade_try self symbol h of
           (Return v, h1) \<Rightarrow> (Return (Some v), h1)
         | (Raise e, h1) \<Rightarrow>
             if isinstance_NetworkError e
             then get_most_recent_trade_loop self symbol max_retries (retries + 1) (h1 @ [Sleep 3])
             else if isinstance_ExchangeError e then (Raise e, h1)
             else (Raise e, h1))
      else (Return None, h))"
  by pat_completeness auto
termination
  by (relation "measure (\<lambda>(self, symbol, max_retries, retries, h). nat (max_retries - retries))") auto

declare get_most_recent_trade_loop.simps [simp del]

definition get_most_recent_trade ::
  "bybit_client \<Rightarrow> string \<Rightarrow> int \<Rightarrow> history \<Rightarrow> fill list option result \<times> history" where
  "get_most_recent_trade self symbol max_retries h =
     get_most_recent_trade_loop self symbol max_retries 0 h"

section \<open>ExchangeConnection: \<^verbatim>\<open>connect\<close>\<close>

text \<open>
  The body of the \<^verbatim>\<open>try\<close> block of \<^verbatim>\<open>connect\<close>: on success the receiver with
  \<^verbatim>\<open>self.markets\<close> and \<^verbatim>\<open>self.client\<close> assigned.
\<close>

definition connect_try ::
  "environment \<Rightarrow> bybit_client \<Rightarrow> string \<Rightarrow> bool \<Rightarrow> history \<Rightarrow> bybit_client result \<times> history" where
  "connect_try env self secret_name sandbox h =
     (case api_key_manager env secret_name h of
        Raise e \<Rightarrow> (Raise e, h @ [GetApiKeys secret_name])
      | Return (api_key, api_secret) \<Rightarrow>
          (let h1 = h @ [GetApiKeys secret_name] in
           case ccxt_bybit env api_key api_secret 6000 h1 of
             Raise e \<Rightarrow> (Raise e, h1 @ [NewExchange api_key api_secret 6000])
           | Return exchange \<Rightarrow>
               (let h2 = h1 @ [NewExchange api_key api_secret 6000] in
                case (if sandbox
                      then (ccxt_set_sandbox_mode exchange True h2, h2 @ [SetSandboxMode True])
                      else (Return (), h2)) of
                  (Raise e, h3) \<Rightarrow> (Raise e, h3)
                | (Return u, h3) \<Rightarrow>
                    (case ccxt_load_markets exchange h3 of
                       Raise e \<Rightarrow> (Raise e, h3 @ [LoadMarkets])
                     | Return m \<Rightarrow>
                         (Return (self\<lparr>client := Some exchange, markets_attr := Some m\<rparr>),
                          h3 @ [LoadMarkets])))))"

function connect_loop ::
  "environment \<Rightarrow> bybit_client \<Rightarrow> string \<Rightarrow> bool \<Rightarrow> int \<Rightarrow> int \<Rightarrow> history
     \<Rightarrow> bool result \<times> bybit_client \<times> history" where
  "connect_loop env self secret_name sandbox max_retries retries h =
     (if retries < max_retries then
        (case connect_try env self secret_name sandbox h of
           (Return self', h1) \<Rightarrow> (Return True, self', h1)
         | (Raise e, h1) \<Rightarrow>
             if isinstance_NetworkError e
             then connect_loop env self secret_name sandbox max_retries (retries + 1) (h1 @ [Sleep 3])
             else if isinstance_ExchangeError e then (Return False, self, h1)
             else (Raise e, self, h1))
      else (Return False, self, h))"
  by pat_completeness auto
termination
  by (relation "measure (\<lambda>(env, self, secret_name, sandbox, max_retries, retries, h).
        nat (max_retries - retries))") auto

declare connect_loop.simps [simp del]

definition connect ::
  "environment \<Rightarrow> bybit_client \<Rightarrow> string \<Rightarrow> bool \<Rightarrow> int \<Rightarrow> history
     \<Rightarrow> bool result \<times> bybit_client \<times> history" where
  "connect env self secret_name sandbox max_retries h =
     connect_loop env self secret_name sandbox max_retries 0 h"

text \<open>
  The requests of one attempt of \<^verbatim>\<open>connect\<close> that gets as far as \<^verbatim>\<open>load_markets\<close>, in
  order, for stating how often the method tried.
\<close>

definition connect_requests :: "string \<Rightarrow> string \<Rightarrow> string \<Rightarrow> bool \<Rightarrow> event list" where
  "connect_requests secret_name api_key api_secret sandbox =
     [GetApiKeys secret_name, NewExchange api_key api_secret 6000]
     @ (if sandbox then [SetSandboxMode True] else []) @ [LoadMarkets]"

section \<open>OrderExecutor: \<^verbatim>\<open>create_limit_order\<close>\<close>

text \<open>
  In the \<^verbatim>\<open>except ccxt.NetworkError as e\<close> clause the test \<^verbatim>\<open>e == ccxt.RequestTimeout\<close>
  compares the caught instance with the class object. An exception raised inside the clause
  (by \<^verbatim>\<open>fetch_open_orders\<close>) leaves the method.
\<close>

function create_limit_order_loop ::
  "bybit_client \<Rightarrow> string \<Rightarrow> string \<Rightarrow> rat \<Rightarrow> rat \<Rightarrow> int \<Rightarrow> int \<Rightarrow> history
     \<Rightarrow> order option result \<times> history" where
  "create_limit_order_loop self symbol side_arg amount_arg order_price max_retries retries h =
     (if retries < max_retries then
        (case client self of
           None \<Rightarrow> (Raise AttributeError, h)
         | Some ex \<Rightarrow>
             (let h1 = h @ [CreateLimitOrder symbol side_arg amount_arg order_price] in
              case ccxt_create_limit_order ex symbol side_arg amount_arg order_price h of
                Return order \<Rightarrow> (Return (Some order), h1)
              | Raise e \<Rightarrow>
                  if isinstance_NetworkError e then
                    (if py_eq (Instance e) (Class RequestTimeout) then
                       (case ccxt_fetch_open_orders ex symbol h1 of
                          Raise e2 \<Rightarrow> (Raise e2, h1 @ [FetchOpenOrders symbol])
                        | Return [] \<Rightarrow>
                            create_limit_order_loop self symbol side_arg amount_arg order_price
                              max_retries (retries + 1) (h1 @ [FetchOpenOrders symbol, Sleep 3])
                        | Return (order0 # orders) \<Rightarrow>
                            (Return (Some order0), h1 @ [FetchOpenOrders symbol]))
                     else
                       create_limit_order_loop self symbol side_arg amount_arg order_price
                         max_retries (retries + 1) (h1 @ [Sleep 3]))
                  else if isinstance_ExchangeError e then (Return None, h1)
                  else (Raise e, h1)))
      else (Return None, h))"
  by pat_completeness auto
termination
  by (relation "measure (\<lambda>(self, symbol, side_arg, amount_arg, order_price, max_retries, retries, h).
        nat (max_retries - retries))") auto

declare create_limit_order_loop.simps [simp del]

definition create_limit_order ::
  "bybit_client \<Rightarrow> string \<Rightarrow> string \<Rightarrow> rat \<Rightarrow> rat \<Rightarrow> int \<Rightarrow> history
     \<Rightarrow> order option result \<times> history" where
  "create_limit_order self symbol side_arg amount_arg order_price max_retries h =
     create_limit_order_loop self symbol side_arg amount_arg order_price max_retries 0 h"

section \<open>BalanceQuery: \<^verbatim>\<open>get_total_currency\<close>\<close>

text \<open>\<^verbatim>\<open>d.get(key, 0)\<close> on a numeric field.\<close>

definition get_or_0 :: "rat option \<Rightarrow> rat" where
  "get_or_0 v = (case v of None \<Rightarrow> 0 | Some x \<Rightarrow> x)"

definition get_total_currency_try ::
  "bybit_client \<Rightarrow> string \<Rightarrow> history \<Rightarrow> rat option result \<times> history" where
  "get_total_currency_try self currency h =
     (case client self of
        None \<Rightarrow> (Raise AttributeError, h)
      | Some ex \<Rightarrow>
          (case ccxt_fetch_balance ex h of
             Raise e \<Rightarrow> (Raise e, h @ [FetchBalance])
           | Return balance \<Rightarrow>
               (case balance currency of
                  Some entry \<Rightarrow> (Return (Some (get_or_0 (entry ''total''))), h @ [FetchBalance])
                | None \<Rightarrow> (Return None, h @ [FetchBalance]))))"

function get_total_currency_loop ::
  "bybit_client \<Rightarrow> string \<Rightarrow> int \<Rightarrow> int \<Rightarrow> history \<Rightarrow> rat option result \<times> history" where
  "get_total_currency_loop self currency max_retries retries h =
     (if retries < max_retries then
        (case get_total_currency_try self currency h of
           (Return v, h1) \<Rightarrow> (Return v, h1)
         | (Raise e, h1) \<Rightarrow>
             if isinstance_NetworkError e
             then get_total_currency_loop self currency max_retries (retries + 1) (h1 @ [Sleep 3])
             else if isinstance_ExchangeError e then (Return None, h1)
             else (Raise e, h1))
      else (Return None, h))"
  by pat_completeness auto
termination
  by (relation "measure (\<lambda>(self, currency, max_retries, retries, h). nat (max_retries - retries))")
    auto

declare get_total_currency_loop.simps [simp del]

definition get_total_currency ::
  "bybit_client \<Rightarrow> string \<Rightarrow> int \<Rightarrow> history \<Rightarrow> rat option result \<times> history" where
  "get_total_currency self currency max_retries h =
     get_total_currency_loop self currency max_retries 0 h"

section \<open>MarketDataQuery: \<^verbatim>\<open>get_bid_ask\<close> and \<^verbatim>\<open>get_last_price\<close>\<close>

text \<open>
  The \<^verbatim>\<open>symbol\<close> argument as Python passes it: a \<^verbatim>\<open>str\<close> or an object of another type.
\<close>

datatype pyarg = PyStr string | PyOther

text \<open>
  The two input checks and the ticker request shared by both methods:
  \<^verbatim>\<open>isinstance(self.client, ccxt.Exchange)\<close> and \<^verbatim>\<open>isinstance(symbol, str)\<close>.
\<close>

definition checked_fetch_ticker ::
  "bybit_client \<Rightarrow> pyarg \<Rightarrow> history \<Rightarrow> ticker result \<times> history" where
  "checked_fetch_ticker self symbol h =
     (case client self of
        None \<Rightarrow> (Raise ValueError, h)
      | Some ex \<Rightarrow>
          (case symbol of
             PyOther \<Rightarrow> (Raise ValueError, h)
           | PyStr s \<Rightarrow> (ccxt_fetch_ticker ex s h, h @ [FetchTicker s])))"

definition get_bid_ask_try ::
  "bybit_client \<Rightarrow> pyarg \<Rightarrow> history \<Rightarrow> (rat option \<times> rat option) result \<times> history" where
  "get_bid_ask_try self symbol h =
     (case checked_fetch_ticker self symbol h of
        (Raise e, h1) \<Rightarrow> (Raise e, h1)
      | (Return ticker, h1) \<Rightarrow> (Return (bid ticker, ask ticker), h1))"

function get_bid_ask_loop ::
  "bybit_client \<Rightarrow> pyarg \<Rightarrow> int \<Rightarrow> int \<Rightarrow> history
     \<Rightarrow> (rat option \<times> rat option) result \<times> history" where
  "get_bid_ask_loop self symbol max_retries retries h =
     (if retries < max_retries then
        (case get_bid_ask_try self symbol h of
           (Return v, h1) \<Rightarrow> (Return v, h1)
         | (Raise e, h1) \<Rightarrow>
             if isinstance_NetworkError e
             then get_bid_ask_loop self symbol max_retries (retries + 1) (h1 @ [Sleep 3])
             else if isinstance_ExchangeError e then (Return (None, None), h1)
             else (Raise e, h1))
      else (Return (None, None), h))"
  by pat_completeness auto
termination
  by (relation "measure (\<lambda>(self, symbol, max_retries, retries, h). nat (max_retries - retries))")
    auto

declare get_bid_ask_loop.simps [simp del]

definition get_bid_ask ::
  "bybit_client \<Rightarrow> pyarg \<Rightarrow> int \<Rightarrow> history \<Rightarrow> (rat option \<times> rat option) result \<times> history" where
  "get_bid_ask self symbol max_retries h = get_bid_ask_loop self symbol max_retries 0 h"

definition get_last_price_try ::
  "bybit_client \<Rightarrow> pyarg \<Rightarrow> history \<Rightarrow> rat option result \<times> history" where
  "get_last_price_try self symbol h =
     (case checked_fetch_ticker self symbol h of
        (Raise e, h1) \<Rightarrow> (Raise e, h1)
      | (Return ticker, h1) \<Rightarrow> (Return (last_price ticker), h1))"

function get_last_price_loop ::
  "bybit_client \<Rightarrow> pyarg \<Rightarrow> int \<Rightarrow> int \<Rightarrow> history \<Rightarrow> rat option result \<times> history" where
  "get_last_price_loop self symbol max_retries retries h =
     (if retries < max_retries then
        (case get_last_price_try self symbol h of
           (Return v, h1) \<Rightarrow> (Return v, h1)
         | (Raise e, h1) \<Rightarrow>
             if isinstance_NetworkError e
             then get_last_price_loop self symbol max_retries (retries + 1) (h1 @ [Sleep 3])
             else if isinstance_ExchangeError e then (Return None, h1)
             else (Raise e, h1))
      else (Return None, h))"
  by pat_completeness auto
termination
  by (relation "measure (\<lambda>(self, symbol, max_retries, retries, h). nat (max_retries - retries))")
    auto

declare get_last_price_loop.simps [simp del]

definition get_last_price ::
  "bybit_client \<Rightarrow> pyarg \<Rightarrow> int \<Rightarrow> history \<Rightarrow> rat option result \<times> history" where
  "get_last_price self symbol max_retries h = get_last_price_loop self symbol max_retries 0 h"

section \<open>TradeValuation: \<^verbatim>\<open>get_trade_value_usd\<close>\<close>

text \<open>\<^verbatim>\<open>trade.get(key, 0)\<close>: the result \<open>None\<close> is Python's \<^verbatim>\<open>None\<close>.\<close>

definition get_default_0 :: "json_number \<Rightarrow> pyfloat option" where
  "get_default_0 v = (case v of Absent \<Rightarrow> Some (Fin 0) | Null \<Rightarrow> None | Number x \<Rightarrow> Some x)"

text \<open>
  The \<^verbatim>\<open>for trade in trades\<close> loop over the three accumulators
  \<^verbatim>\<open>(trade_value_usd, amount_owned, amount_bought)\<close>. Adding or subtracting \<^verbatim>\<open>None\<close>
  raises \<^verbatim>\<open>TypeError\<close>.
\<close>

fun accumulate_trades ::
  "fill list \<Rightarrow> pyfloat \<times> pyfloat \<times> pyfloat \<Rightarrow> (pyfloat \<times> pyfloat \<times> pyfloat) result" where
  "accumulate_trades [] acc = Return acc"
| "accumulate_trades (trade # rest) (trade_value_usd, amount_owned, amount_bought) =
     (if side trade = Some ''buy''
      then (case get_default_0 (amount trade) of
              None \<Rightarrow> Raise TypeError
            | Some a \<Rightarrow>
                (case get_default_0 (cost trade) of
                   None \<Rightarrow> Raise TypeError
                 | Some c \<Rightarrow>
                     accumulate_trades rest
                       (float_add trade_value_usd c, float_add amount_owned a,
                        float_add amount_bought a)))
      else if side trade = Some ''sell''
      then (case get_default_0 (amount trade) of
              None \<Rightarrow> Raise TypeError
            | Some a \<Rightarrow>
                accumulate_trades rest (trade_value_usd, float_sub amount_owned a, amount_bought))
      else accumulate_trades rest (trade_value_usd, amount_owned, amount_bought))"

text \<open>Python's true division of floats, which raises on a zero divisor.\<close>

definition py_truediv :: "pyfloat \<Rightarrow> pyfloat \<Rightarrow> pyfloat result" where
  "py_truediv a b = (if py_eq_zero b then Raise ZeroDivisionError else Return (float_div a b))"

text \<open>
  \<^verbatim>\<open>round(x, 2)\<close> on a float: the exact binary value is rounded to the nearest multiple of
  one hundredth, a tie going to the even neighbour, and that decimal is converted back to
  the nearest float. Infinities and NaN round to themselves.
\<close>

fun py_round2 :: "pyfloat \<Rightarrow> pyfloat" where
  "py_round2 (Fin q) = to_double (of_int (round_half_even (q * 100)) / 100)"
| "py_round2 x = x"

definition get_trade_value_usd :: "fill list \<Rightarrow> pyfloat result" where
  "get_trade_value_usd trades =
     (case accumulate_trades trades (Fin 0, Fin 0, Fin 0) of
        Raise e \<Rightarrow> Raise e
      | Return (trade_value_usd, amount_owned, amount_bought) \<Rightarrow>
          if py_eq_zero amount_bought then Return (Fin 0)
          else (case py_truediv amount_owned amount_bought of
                  Raise e \<Rightarrow> Raise e
                | Return proportion \<Rightarrow>
                    Return (float_mul trade_value_usd (py_round2 proportion))))"

text \<open>
  The sums as the specification words them, for comparison with the loop: each is taken
  over the fills in their order, in float arithmetic. A fill list is numeric when no buy
  or sell fill has the amount \<^verbatim>\<open>None\<close> and no buy fill has the cost \<^verbatim>\<open>None\<close>.
\<close>

definition number_or_0 :: "json_number \<Rightarrow> pyfloat" where
  "number_or_0 v = (case v of Number x \<Rightarrow> x | _ \<Rightarrow> Fin 0)"

definition buy_fills :: "fill list \<Rightarrow> fill list" where
  "buy_fills trades = filter (\<lambda>t. side t = Some ''buy'') trades"

definition buy_and_sell_fills :: "fill list \<Rightarrow> fill list" where
  "buy_and_sell_fills trades =
     filter (\<lambda>t. side t = Some ''buy'' \<or> side t = Some ''sell'') trades"

definition total_bought :: "fill list \<Rightarrow> pyfloat" where
  "total_bought trades =
     foldl float_add (Fin 0) (map (\<lambda>t. number_or_0 (amount t)) (buy_fills trades))"

definition total_cost :: "fill list \<Rightarrow> pyfloat" where
  "total_cost trades =
     foldl float_add (Fin 0) (map (\<lambda>t. number_or_0 (cost t)) (buy_fills trades))"

definition net_amount :: "pyfloat \<Rightarrow> fill \<Rightarrow> pyfloat" where
  "net_amount owned t =
     (if side t = Some ''buy'' then float_add owned (number_or_0 (amount t))
      else float_sub owned (number_or_0 (amount t)))"

definition amount_owned_net :: "fill list \<Rightarrow> pyfloat" where
  "amount_owned_net trades = foldl net_amount (Fin 0) (buy_and_sell_fills trades)"

definition numeric_fill :: "fill \<Rightarrow> bool" where
  "numeric_fill t =
     ((side t = Some ''buy'' \<longrightarrow> amount t \<noteq> Null \<and> cost t \<noteq> Null)
      \<and> (side t = Some ''sell'' \<longrightarrow> amount t \<noteq> Null))"

definition numeric_fills :: "fill list \<Rightarrow> bool" where
  "numeric_fills trades = list_all numeric_fill trades"

definition buy :: "rat \<Rightarrow> rat \<Rightarrow> fill" where
  "buy a c = \<lparr>side = Some ''buy'', amount = Number (Fin a), cost = Number (Fin c)\<rparr>"

definition sell :: "rat \<Rightarrow> fill" where
  "sell a = \<lparr>side = Some ''sell'', amount = Number (Fin a), cost = Absent\<rparr>"

section \<open>AllocationCalculator: \<^verbatim>\<open>get_account_allocation\<close> and \<^verbatim>\<open>get_total_usd\<close>\<close>

text \<open>
  The allocation dictionary keeps insertion order; assigning to a key that is present
  replaces its value in place.
\<close>

type_synonym allocation = "(string \<times> pyval) list"

text \<open>
  The \<^verbatim>\<open>for config in active_configs\<close> loop. \<^verbatim>\<open>get_most_recent_trade\<close> is called with its
  default \<^verbatim>\<open>max_retries=3\<close>; \<^verbatim>\<open>if trades\<close> is false for \<^verbatim>\<open>None\<close> and for the empty list.
\<close>

fun allocate_configs ::
  "bybit_client \<Rightarrow> strategy_config list \<Rightarrow> allocation \<Rightarrow> history \<Rightarrow> allocation result \<times> history" where
  "allocate_configs self [] allocation_dict h = (Return allocation_dict, h)"
| "allocate_configs self (config # rest) allocation_dict h =
     (case get_most_recent_trade self (config_symbol config) 3 h of
        (Raise e, h1) \<Rightarrow> (Raise e, h1)
      | (Return (Some (t # ts)), h1) \<Rightarrow>
          (case get_trade_value_usd (t # ts) of
             Raise e \<Rightarrow> (Raise e, h1)
           | Return trade_value_usd \<Rightarrow>
               allocate_configs self rest
                 (AList.update (config_currency config) (PyFloat trade_value_usd) allocation_dict) h1)
      | (Return _, h1) \<Rightarrow>
          allocate_configs self rest
            (AList.update (config_currency config) (PyNum 0) allocation_dict) h1)"

definition get_account_allocation_try ::
  "environment \<Rightarrow> bybit_client \<Rightarrow> history \<Rightarrow> allocation result \<times> history" where
  "get_account_allocation_try env self h =
     (case client self of
        None \<Rightarrow> (Raise AttributeError, h)
      | Some ex \<Rightarrow>
          (case ccxt_fetch_balance ex h of
             Raise e \<Rightarrow> (Raise e, h @ [FetchBalance])
           | Return balance \<Rightarrow>
               (case balance ''free'' of
                  None \<Rightarrow> (Raise AttributeError, h @ [FetchBalance])
                | Some free \<Rightarrow>
                    (let available_funds_usd =
                           (case free (base_currency self) of None \<Rightarrow> PyNone | Some x \<Rightarrow> PyNum x);
                         h1 = h @ [FetchBalance]
                     in case get_active_strategy_configs env h1 of
                          Raise e \<Rightarrow> (Raise e, h1 @ [GetActiveStrategyConfigs])
                        | Return active_configs \<Rightarrow>
                            allocate_configs self active_configs
                              (AList.update ''USD'' available_funds_usd [])
                              (h1 @ [GetActiveStrategyConfigs])))))"

text \<open>
  The retry loop of \<^verbatim>\<open>get_account_allocation\<close>; there is no statement after the loop, so
  exhausting the retries returns \<^verbatim>\<open>None\<close>.
\<close>

function get_account_allocation_loop ::
  "environment \<Rightarrow> bybit_client \<Rightarrow> int \<Rightarrow> int \<Rightarrow> history \<Rightarrow> allocation option result \<times> history" where
  "get_account_allocation_loop env self max_retries retries h =
     (if retries < max_retries then
        (case get_account_allocation_try env self h of
           (Return v, h1) \<Rightarrow> (Return (Some v), h1)
         | (Raise e, h1) \<Rightarrow>
             if isinstance_NetworkError e
             then get_account_allocation_loop env self max_retries (retries + 1) (h1 @ [Sleep 3])
             else if isinstance_ExchangeError e then (Return None, h1)
             else (Raise e, h1))
      else (Return None, h))"
  by pat_completeness auto
termination
  by (relation "measure (\<lambda>(env, self, max_retries, retries, h). nat (max_retries - retries))")
    auto

declare get_account_allocation_loop.simps [simp del]

definition get_account_allocation ::
  "environment \<Rightarrow> bybit_client \<Rightarrow> int \<Rightarrow> history \<Rightarrow> allocation option result \<times> history" where
  "get_account_allocation env self max_retries h =
     get_account_allocation_loop env self max_retries 0 h"

text \<open>
  The local names of \<^verbatim>\<open>get_total_usd\<close>. \<^verbatim>\<open>sum\<close> is assigned in the body, so Python
  compiles every use of it in the body as a read of the local name, which raises
  \<^verbatim>\<open>UnboundLocalError\<close> while the name has no value.
\<close>

datatype local_value = LocalDict "allocation option" | LocalDecimal rat

definition load_fast :: "(string \<rightharpoonup> local_value) \<Rightarrow> string \<Rightarrow> local_value result" where
  "load_fast frame name = (case frame name of None \<Rightarrow> Raise UnboundLocalError | Some v \<Rightarrow> Return v)"

text \<open>
  \<^verbatim>\<open>get_total_usd\<close>: the only value the local \<^verbatim>\<open>sum\<close> could hold is the \<^verbatim>\<open>Decimal\<close> this
  statement assigns, and calling it would be a \<^verbatim>\<open>TypeError\<close>. The method has no
  \<^verbatim>\<open>return\<close> statement.
\<close>

definition get_total_usd ::
  "environment \<Rightarrow> bybit_client \<Rightarrow> history \<Rightarrow> pyval result \<times> history" where
  "get_total_usd env self h =
     (case get_account_allocation env self 3 h of
        (Raise e, h1) \<Rightarrow> (Raise e, h1)
      | (Return allocation_dict, h1) \<Rightarrow>
          (let frame = [''allocation_dict'' \<mapsto> LocalDict allocation_dict] in
           case load_fast frame ''sum'' of
             Raise e \<Rightarrow> (Raise e, h1)
           | Return f \<Rightarrow> (Raise TypeError, h1)))"

section \<open>Concrete exchanges and receivers\<close>

text \<open>
  An exchange that answers every request, whatever the history; only \<^verbatim>\<open>BTC/USDT\<close> has fills.
\<close>

definition open_order :: order where
  "open_order = \<lparr>o_id = ''7'', o_symbol = ''BTC/USDT'', o_side = ''buy'', o_amount = 1, o_price = 100\<rparr>"

definition ok_exchange :: exchange where
  "ok_exchange =
     \<lparr>ccxt_id = ''bybit'',
      ccxt_set_sandbox_mode = (\<lambda>b h. Return ()),
      ccxt_load_markets = (\<lambda>h. Return [''BTC/USDT'']),
      ccxt_create_limit_order =
        (\<lambda>s sd a p h. Return \<lparr>o_id = ''8'', o_symbol = s, o_side = sd, o_amount = a, o_price = p\<rparr>),
      ccxt_fetch_open_orders = (\<lambda>s h. Return [open_order]),
      ccxt_fetch_balance =
        (\<lambda>h. Return [''free'' \<mapsto> [''USDT'' \<mapsto> 50], ''USDT'' \<mapsto> [''free'' \<mapsto> 50, ''total'' \<mapsto> 60]]),
      ccxt_fetch_ticker =
        (\<lambda>s h. Return \<lparr>bid = Some 100, ask = Some (201 / 2), last_price = Some 100\<rparr>),
      ccxt_fetch_my_trades =
        (\<lambda>s h. if s = ''BTC/USDT'' then Return [buy 1 100, sell 1, buy 3 300] else Return [])\<rparr>"

text \<open>An exchange every request of which raises \<open>e\<close>; its open-order list is not empty.\<close>

definition raising_exchange :: "exc_class \<Rightarrow> exchange" where
  "raising_exchange e =
     \<lparr>ccxt_id = ''bybit'',
      ccxt_set_sandbox_mode = (\<lambda>b h. Return ()),
      ccxt_load_markets = (\<lambda>h. Raise e),
      ccxt_create_limit_order = (\<lambda>s sd a p h. Raise e),
      ccxt_fetch_open_orders = (\<lambda>s h. Return [open_order]),
      ccxt_fetch_balance = (\<lambda>h. Raise e),
      ccxt_fetch_ticker = (\<lambda>s h. Raise e),
      ccxt_fetch_my_trades = (\<lambda>s h. Raise e)\<rparr>"

text \<open>An exchange whose first request of a run times out and whose later requests succeed.\<close>

definition flaky_exchange :: exchange where
  "flaky_exchange =
     ok_exchange
       \<lparr>ccxt_fetch_balance :=
          (\<lambda>h. if h = [] then Raise RequestTimeout else ccxt_fetch_balance ok_exchange h),
        ccxt_fetch_my_trades :=
          (\<lambda>s h. if h = [] then Raise RequestTimeout else Return [buy 2 200, buy 1 110])\<rparr>"

definition connected_to :: "exchange \<Rightarrow> string \<Rightarrow> bybit_client" where
  "connected_to ex base = \<lparr>client = Some ex, markets_attr = Some [''BTC/USDT''], base_currency = base\<rparr>"

definition unconnected :: bybit_client where
  "unconnected = \<lparr>client = None, markets_attr = None, base_currency = ''USDT''\<rparr>"

definition btc_strategy :: strategy_config where
  "btc_strategy = \<lparr>config_symbol = ''BTC/USDT'', config_currency = ''BTC''\<rparr>"

definition eth_strategy :: strategy_config where
  "eth_strategy = \<lparr>config_symbol = ''ETH/USDT'', config_currency = ''ETH''\<rparr>"

definition example_env :: "exchange \<Rightarrow> strategy_config list \<Rightarrow> environment" where
  "example_env ex configs =
     \<lparr>api_key_manager = (\<lambda>s h. Return (''key'', ''secret'')),
      ccxt_bybit = (\<lambda>k s t h. Return ex),
      get_active_strategy_configs = (\<lambda>h. Return configs)\<rparr>"

section \<open>Facts about the scan\<close>

lemma slice_last_suffix: "suffix (slice_last trades i) trades"
  by (simp add: slice_last_def suffix_drop)

lemma slice_last_nonempty: "trades \<noteq> [] \<Longrightarrow> 0 < i \<Longrightarrow> slice_last trades i \<noteq> []"
  by (cases trades) (auto simp: slice_last_def)

lemma scan_reversed_suffix: "suffix (scan_reversed trades i prev rest) trades"
  by (induction rest arbitrary: i prev) (simp_all add: slice_last_suffix)

lemma scan_reversed_nonempty:
  "trades \<noteq> [] \<Longrightarrow> (prev = Some ''buy'' \<longrightarrow> 0 < i) \<Longrightarrow> scan_reversed trades i prev rest \<noteq> []"
  by (induction rest arbitrary: i prev) (simp_all add: slice_last_nonempty)

lemma scan_reversed_no_sell:
  "\<forall>t \<in> set rest. side t \<noteq> Some ''sell'' \<Longrightarrow> scan_reversed trades i prev rest = trades"
  by (induction rest arbitrary: i prev) simp_all

lemma match_trades_suffix: "suffix (match_trades trades) trades"
  by (simp add: match_trades_def scan_reversed_suffix)

lemma match_trades_empty_iff: "match_trades trades = [] \<longleftrightarrow> trades = []"
  by (simp add: match_trades_def scan_reversed_nonempty)

lemma match_trades_no_sell:
  "\<forall>t \<in> set trades. side t \<noteq> Some ''sell'' \<Longrightarrow> match_trades trades = trades"
  by (simp add: match_trades_def scan_reversed_no_sell)

section \<open>Claims about TradeMatcher\<close>

lemma get_most_recent_trade_loop_fetched:
  assumes "client self = Some ex" and "ccxt_fetch_my_trades ex symbol h = Return trades"
    and "retries < max_retries"
  shows "get_most_recent_trade_loop self symbol max_retries retries h =
           (Return (Some (match_trades trades)), h @ [FetchMyTrades symbol])"
  using assms
  by (subst get_most_recent_trade_loop.simps) (simp add: get_most_recent_trade_try_def)

text \<open>
  Claim C3. Whenever an attempt of the retry loop of \<^verbatim>\<open>get_most_recent_trade\<close> fetches a
  fill list, the method returns a suffix of that list (a contiguous run of its newest
  fills), and the returned list is empty exactly when the fetched list is empty. The method
  itself is the loop started at \<open>retries = 0\<close>.
\<close>

theorem trade_matcher_returns_suffix:
  assumes "client self = Some ex" and "ccxt_fetch_my_trades ex symbol h = Return trades"
    and "retries < max_retries"
  shows "\<exists>cycle. get_most_recent_trade_loop self symbol max_retries retries h =
             (Return (Some cycle), h @ [FetchMyTrades symbol])
           \<and> suffix cycle trades \<and> (cycle = [] \<longleftrightarrow> trades = [])"
  using get_most_recent_trade_loop_fetched [OF assms] match_trades_suffix match_trades_empty_iff
  by blast

lemma connected_to_client: "client (connected_to ex base) = Some ex"
  by (simp add: connected_to_def)

theorem trade_matcher_returns_suffix_witness:
  "get_most_recent_trade (connected_to ok_exchange ''USDT'') ''BTC/USDT'' 3 [] =
     (Return (Some [buy 3 300]), [FetchMyTrades ''BTC/USDT''])
   \<and> (\<exists>cycle. get_most_recent_trade_loop (connected_to ok_exchange ''USDT'') ''BTC/USDT'' 3 0 [] =
          (Return (Some cycle), [FetchMyTrades ''BTC/USDT''])
        \<and> suffix cycle [buy 1 100, sell 1, buy 3 300] \<and> cycle \<noteq> [])"
proof -
  have f: "ccxt_fetch_my_trades ok_exchange ''BTC/USDT'' [] = Return [buy 1 100, sell 1, buy 3 300]"
    by (simp add: ok_exchange_def)
  have r: "(0::int) < 3" by simp
  have m: "match_trades [buy 1 100, sell 1, buy 3 300] = [buy 3 300]"
    by (simp add: match_trades_def slice_last_def buy_def sell_def)
  have "get_most_recent_trade (connected_to ok_exchange ''USDT'') ''BTC/USDT'' 3 [] =
     (Return (Some [buy 3 300]), [FetchMyTrades ''BTC/USDT''])"
    using get_most_recent_trade_loop_fetched [OF connected_to_client f r] m
    by (simp add: get_most_recent_trade_def)
  moreover from trade_matcher_returns_suffix [OF connected_to_client f r]
  have "\<exists>cycle. get_most_recent_trade_loop (connected_to ok_exchange ''USDT'') ''BTC/USDT'' 3 0 [] =
          (Return (Some cycle), [FetchMyTrades ''BTC/USDT''])
        \<and> suffix cycle [buy 1 100, sell 1, buy 3 300] \<and> cycle \<noteq> []"
    by simp
  ultimately show ?thesis by blast
qed

text \<open>
  Claim C7. A fetched fill list that is not empty and holds no sell fill is returned whole.
\<close>

theorem trade_matcher_no_sells_whole:
  assumes "client self = Some ex" and "ccxt_fetch_my_trades ex symbol h = Return trades"
    and "retries < max_retries"
    and "trades \<noteq> []" and "\<forall>t \<in> set trades. side t \<noteq> Some ''sell''"
  shows "get_most_recent_trade_loop self symbol max_retries retries h =
           (Return (Some trades), h @ [FetchMyTrades symbol])"
  using get_most_recent_trade_loop_fetched [OF assms(1-3)] match_trades_no_sell [OF assms(5)]
  by simp

lemma flaky_first:
  "get_most_recent_trade_loop (connected_to flaky_exchange ''USDT'') ''BTC/USDT'' 3 0 [] =
   get_most_recent_trade_loop (connected_to flaky_exchange ''USDT'') ''BTC/USDT'' 3 1
     [FetchMyTrades ''BTC/USDT'', Sleep 3]"
  by (subst get_most_recent_trade_loop.simps)
     (simp add: get_most_recent_trade_try_def connected_to_def flaky_exchange_def)

theorem trade_matcher_no_sells_whole_witness:
  "get_most_recent_trade (connected_to flaky_exchange ''USDT'') ''BTC/USDT'' 3 [] =
     (Return (Some [buy 2 200, buy 1 110]),
      [FetchMyTrades ''BTC/USDT'', Sleep 3, FetchMyTrades ''BTC/USDT''])"
proof -
  let ?h = "[FetchMyTrades ''BTC/USDT'', Sleep 3]"
  have f: "ccxt_fetch_my_trades flaky_exchange ''BTC/USDT'' ?h = Return [buy 2 200, buy 1 110]"
    by (simp add: flaky_exchange_def)
  have r: "(1::int) < 3" by simp
  have ne: "[buy 2 200, buy 1 110] \<noteq> []" by simp
  have ns: "\<forall>t \<in> set [buy 2 200, buy 1 110]. side t \<noteq> Some ''sell''"
    by (simp add: buy_def)
  from trade_matcher_no_sells_whole [OF connected_to_client f r ne ns] flaky_first
  show ?thesis by (simp add: get_most_recent_trade_def)
qed

section \<open>Facts about floats\<close>

text \<open>
  The float operations on values Python prints as \<^verbatim>\<open>0.1 + 0.2 == 0.30000000000000004\<close>,
  \<^verbatim>\<open>round(2.675, 2) == 2.67\<close>, \<^verbatim>\<open>round(0.125, 2) == 0.12\<close> and
  \<^verbatim>\<open>round(3 / 200, 2) == 0.01\<close>, each float written as its exact value.
\<close>

lemma float_reference_values:
  "to_double (1 / 10) = Fin (3602879701896397 / 2 ^ 55)"
  "to_double (1 / 5) = Fin (3602879701896397 / 2 ^ 54)"
  "float_add (Fin (3602879701896397 / 2 ^ 55)) (Fin (3602879701896397 / 2 ^ 54)) =
     Fin (1351079888211149 / 2 ^ 52)"
  "py_round2 (Fin (3011782250804019 / 2 ^ 50)) = Fin (1503076375634903 / 2 ^ 49)"
  "py_round2 (Fin (1 / 8)) = to_double (12 / 100)"
  "float_div (Fin 3) (Fin 200) = Fin (1080863910568919 / 2 ^ 56)"
  "py_round2 (Fin (1080863910568919 / 2 ^ 56)) = to_double (1 / 100)"
  "float_mul PosInf (Fin 0) = NaN"
  "float_sub PosInf PosInf = NaN"
  "py_truediv (Fin 1) (Fin 0) = Raise ZeroDivisionError"
  by code_simp+

section \<open>Claims about TradeValuation\<close>

lemma accumulate_trades_sums:
  "numeric_fills trades \<Longrightarrow>
   accumulate_trades trades (v, ow, b) =
     Return (foldl float_add v (map (\<lambda>t. number_or_0 (cost t)) (buy_fills trades)),
             foldl net_amount ow (buy_and_sell_fills trades),
             foldl float_add b (map (\<lambda>t. number_or_0 (amount t)) (buy_fills trades)))"
proof (induction trades arbitrary: v ow b)
  case Nil
  then show ?case by (simp add: buy_fills_def buy_and_sell_fills_def)
next
  case (Cons trade rest)
  from Cons.prems have rest: "numeric_fills rest" and t: "numeric_fill trade"
    by (simp_all add: numeric_fills_def)
  note ih = Cons.IH [OF rest]
  show ?case
  proof (cases "side trade = Some ''buy''")
    case True
    with t have "amount trade \<noteq> Null" "cost trade \<noteq> Null"
      by (simp_all add: numeric_fill_def)
    with True show ?thesis
      by (cases "amount trade"; cases "cost trade")
         (simp_all add: ih get_default_0_def number_or_0_def net_amount_def buy_fills_def
            buy_and_sell_fills_def)
  next
    case False
    show ?thesis
    proof (cases "side trade = Some ''sell''")
      case True
      with t have "amount trade \<noteq> Null"
        by (simp add: numeric_fill_def)
      with True False show ?thesis
        by (cases "amount trade")
           (simp_all add: ih get_default_0_def number_or_0_def net_amount_def buy_fills_def
              buy_and_sell_fills_def)
    next
      case neither: False
      with False show ?thesis
        by (simp add: ih buy_fills_def buy_and_sell_fills_def)
    qed
  qed
qed

lemma get_trade_value_usd_formula:
  "numeric_fills trades \<Longrightarrow>
   get_trade_value_usd trades =
     Return (if py_eq_zero (total_bought trades) then Fin 0
             else float_mul (total_cost trades)
                    (py_round2 (float_div (amount_owned_net trades) (total_bought trades))))"
  by (simp add: get_trade_value_usd_def accumulate_trades_sums py_truediv_def total_bought_def
      total_cost_def amount_owned_net_def)

lemma get_trade_value_usd_null_amount:
  "get_trade_value_usd [\<lparr>side = Some ''buy'', amount = Null, cost = Number (Fin 100)\<rparr>] =
     Raise TypeError"
  by (simp add: get_trade_value_usd_def get_default_0_def)

text \<open>
  Claim C4. For every list of fills as the data model has them (no buy or sell fill with
  the amount \<^verbatim>\<open>None\<close>, no buy fill with the cost \<^verbatim>\<open>None\<close>; the lemma above shows the
  \<^verbatim>\<open>TypeError\<close> otherwise), \<^verbatim>\<open>get_trade_value_usd\<close> never raises: there is no division by
  zero. It returns 0 when the total amount bought across the buy fills is 0, the empty list
  included, and otherwise the total cost of the buy fills times
  \<^verbatim>\<open>round(amount_owned / amount_bought, 2)\<close>, all in Python's float arithmetic, where the
  amount owned nets the amounts of buy and sell fills. The three worked examples of the
  specification give 200, 100 and 0. Four more examples fix the arithmetic: \<open>3 / 200\<close> is a
  float just below 0.015 and rounds to 0.01; \<open>90 * 0.67\<close> is the float 60.300000000000004;
  the exact ties 0.125 and 0.375 round to the even neighbours 0.12 and 0.38.
\<close>

theorem get_trade_value_usd_spec:
  "(numeric_fills trades \<longrightarrow>
      get_trade_value_usd trades =
        Return (if py_eq_zero (total_bought trades) then Fin 0
                else float_mul (total_cost trades)
                       (py_round2 (float_div (amount_owned_net trades) (total_bought trades)))))
   \<and> get_trade_value_usd [] = Return (Fin 0)
   \<and> get_trade_value_usd [buy 2 200] = Return (Fin 200)
   \<and> get_trade_value_usd [buy 2 200, sell 1] = Return (Fin 100)
   \<and> get_trade_value_usd [buy 1 100, sell 1] = Return (Fin 0)
   \<and> get_trade_value_usd [buy 200 1000, sell 197] = Return (Fin 10)
   \<and> get_trade_value_usd [buy 3 90, sell 1] = Return (Fin (8486470547826279 / 2 ^ 47))
   \<and> get_trade_value_usd [buy 8 100, sell 7] = Return (Fin 12)
   \<and> get_trade_value_usd [buy 8 100, sell 5] = Return (Fin 38)"
proof -
  have "get_trade_value_usd [] = Return (Fin 0)"
    by code_simp
  moreover have "get_trade_value_usd [buy 2 200] = Return (Fin 200)"
    by code_simp
  moreover have "get_trade_value_usd [buy 2 200, sell 1] = Return (Fin 100)"
    by code_simp
  moreover have "get_trade_value_usd [buy 1 100, sell 1] = Return (Fin 0)"
    by code_simp
  moreover have "get_trade_value_usd [buy 200 1000, sell 197] = Return (Fin 10)"
    by code_simp
  moreover have "get_trade_value_usd [buy 3 90, sell 1] = Return (Fin (8486470547826279 / 2 ^ 47))"
    by code_simp
  moreover have "get_trade_value_usd [buy 8 100, sell 7] = Return (Fin 12)"
    by code_simp
  moreover have "get_trade_value_usd [buy 8 100, sell 5] = Return (Fin 38)"
    by code_simp
  ultimately show ?thesis
    using get_trade_value_usd_formula [of trades] by blast
qed

theorem get_trade_value_usd_spec_witness:
  "numeric_fills [buy 3 100, sell 2]
   \<and> get_trade_value_usd [buy 3 100, sell 2] = Return (Fin 33)
   \<and> numeric_fills [sell 1]
   \<and> get_trade_value_usd [sell 1] = Return (Fin 0)"
proof -
  have n1: "numeric_fills [buy 3 100, sell 2]" and n2: "numeric_fills [sell 1]"
    by (simp_all add: numeric_fills_def numeric_fill_def buy_def sell_def)
  have s1: "total_bought [buy 3 100, sell 2] = Fin 3" "total_cost [buy 3 100, sell 2] = Fin 100"
    "amount_owned_net [buy 3 100, sell 2] = Fin 1"
    by code_simp+
  have s2: "total_bought [sell 1] = Fin 0"
    by code_simp
  have r: "float_mul (Fin 100) (py_round2 (to_double (1 / 3))) = Fin 33"
    by code_simp
  from get_trade_value_usd_spec [of "[buy 3 100, sell 2]"] get_trade_value_usd_spec [of "[sell 1]"]
    n1 n2
  show ?thesis by (simp add: s1 s2 r py_eq_zero_def)
qed

section \<open>Claims about BalanceQuery\<close>

text \<open>
  Claim C8. When an attempt of \<^verbatim>\<open>get_total_currency\<close> fetches a balance payload in which
  the requested currency is absent, the method returns \<^verbatim>\<open>None\<close> at once: no exception, no
  number, no further request. The method itself is the loop started at \<open>retries = 0\<close>.
\<close>

theorem get_total_currency_absent:
  assumes "client self = Some ex" and "ccxt_fetch_balance ex h = Return balance"
    and "balance currency = None" and "retries < max_retries"
  shows "get_total_currency_loop self currency max_retries retries h =
           (Return None, h @ [FetchBalance])"
  using assms
  by (subst get_total_currency_loop.simps) (simp add: get_total_currency_try_def)

lemma flaky_balance_first:
  "get_total_currency_loop (connected_to flaky_exchange ''USDT'') currency 3 0 [] =
   get_total_currency_loop (connected_to flaky_exchange ''USDT'') currency 3 1
     [FetchBalance, Sleep 3]"
  by (subst get_total_currency_loop.simps)
     (simp add: get_total_currency_try_def connected_to_def flaky_exchange_def)

theorem get_total_currency_absent_witness:
  "get_total_currency (connected_to flaky_exchange ''USDT'') ''BTC'' 3 [] =
     (Return None, [FetchBalance, Sleep 3, FetchBalance])"
proof -
  let ?h = "[FetchBalance, Sleep 3]"
  let ?b = "[''free'' \<mapsto> [''USDT'' \<mapsto> (50::rat)],
            ''USDT'' \<mapsto> [''free'' \<mapsto> 50, ''total'' \<mapsto> 60]]"
  have f: "ccxt_fetch_balance flaky_exchange ?h = Return ?b"
    by (simp add: flaky_exchange_def ok_exchange_def)
  have a: "?b ''BTC'' = None" by simp
  have r: "(1::int) < 3" by simp
  from get_total_currency_absent [OF connected_to_client f a r] flaky_balance_first
  show ?thesis by (simp add: get_total_currency_def)
qed

lemma get_total_currency_present_example:
  "get_total_currency (connected_to ok_exchange ''USDT'') ''USDT'' 3 [] =
     (Return (Some 60), [FetchBalance])"
  by (subst get_total_currency_def, subst get_total_currency_loop.simps)
     (simp add: get_total_currency_try_def connected_to_def ok_exchange_def get_or_0_def)

section \<open>Claims about OrderExecutor\<close>

lemma instance_never_equals_class: "py_eq (Instance e) (Class c) = False"
  by (simp add: py_eq_def)

lemma create_limit_order_loop_network_error:
  assumes "client self = Some ex"
    and "ccxt_create_limit_order ex symbol side_arg amount_arg order_price h = Raise e"
    and "isinstance_NetworkError e" and "retries < max_retries"
  shows "create_limit_order_loop self symbol side_arg amount_arg order_price max_retries retries h =
         create_limit_order_loop self symbol side_arg amount_arg order_price max_retries (retries + 1)
           (h @ [CreateLimitOrder symbol side_arg amount_arg order_price, Sleep 3])"
  using assms
  by (subst create_limit_order_loop.simps) (simp add: instance_never_equals_class)

lemma create_limit_order_loop_exhausted:
  "\<not> retries < max_retries \<Longrightarrow>
   create_limit_order_loop self symbol side_arg amount_arg order_price max_retries retries h =
     (Return None, h)"
  by (subst create_limit_order_loop.simps) simp

text \<open>
  Claim C1. The request times out on every attempt while the exchange holds a matching open
  order. The method never asks for the open orders: it sleeps, places the order again, and
  after three attempts returns \<^verbatim>\<open>None\<close>.
\<close>

theorem create_limit_order_timeout_ignores_open_orders:
  "ccxt_fetch_open_orders (raising_exchange RequestTimeout) ''BTC/USDT''
       [CreateLimitOrder ''BTC/USDT'' ''buy'' 1 100] = Return [open_order]
   \<and> create_limit_order (connected_to (raising_exchange RequestTimeout) ''USDT'')
         ''BTC/USDT'' ''buy'' 1 100 3 [] =
       (Return None,
        [CreateLimitOrder ''BTC/USDT'' ''buy'' 1 100, Sleep 3,
         CreateLimitOrder ''BTC/USDT'' ''buy'' 1 100, Sleep 3,
         CreateLimitOrder ''BTC/USDT'' ''buy'' 1 100, Sleep 3])"
proof -
  let ?ex = "raising_exchange RequestTimeout"
  have f: "\<And>h. ccxt_create_limit_order ?ex ''BTC/USDT'' ''buy'' 1 100 h = Raise RequestTimeout"
    by (simp add: raising_exchange_def)
  have n: "isinstance_NetworkError RequestTimeout" by simp
  note step = create_limit_order_loop_network_error [OF connected_to_client f n]
  have "create_limit_order (connected_to ?ex ''USDT'') ''BTC/USDT'' ''buy'' 1 100 3 [] =
          create_limit_order_loop (connected_to ?ex ''USDT'') ''BTC/USDT'' ''buy'' 1 100 3 3
          [CreateLimitOrder ''BTC/USDT'' ''buy'' 1 100, Sleep 3,
           CreateLimitOrder ''BTC/USDT'' ''buy'' 1 100, Sleep 3,
           CreateLimitOrder ''BTC/USDT'' ''buy'' 1 100, Sleep 3]"
    by (simp add: create_limit_order_def step)
  then show ?thesis
    by (simp add: create_limit_order_loop_exhausted raising_exchange_def)
qed

section \<open>Claims about MarketDataQuery\<close>

lemma get_bid_ask_try_extends:
  "\<exists>evs. snd (get_bid_ask_try self symbol h) = h @ evs"
proof (cases "client self")
  case None
  then show ?thesis by (simp add: get_bid_ask_try_def checked_fetch_ticker_def)
next
  case (Some ex)
  show ?thesis
  proof (cases symbol)
    case PyOther
    with Some show ?thesis by (simp add: get_bid_ask_try_def checked_fetch_ticker_def)
  next
    case (PyStr s)
    with Some show ?thesis
      by (cases "ccxt_fetch_ticker ex s h") (simp_all add: get_bid_ask_try_def checked_fetch_ticker_def)
  qed
qed

lemma get_bid_ask_loop_extends:
  "\<exists>evs. snd (get_bid_ask_loop self symbol max_retries retries h) = h @ evs"
proof (induction self symbol max_retries retries h rule: get_bid_ask_loop.induct)
  case (1 self symbol max_retries retries h)
  note unfold = get_bid_ask_loop.simps [of self symbol max_retries retries h]
  show ?case
  proof (cases "retries < max_retries")
    case False
    with unfold show ?thesis by simp
  next
    case lt: True
    obtain r h1 where att: "get_bid_ask_try self symbol h = (r, h1)"
      by (cases "get_bid_ask_try self symbol h")
    from get_bid_ask_try_extends [of self symbol h] att
    obtain evs1 where h1: "h1 = h @ evs1" by auto
    show ?thesis
    proof (cases r)
      case (Return v)
      with lt att unfold h1 show ?thesis by simp
    next
      case (Raise e)
      show ?thesis
      proof (cases "isinstance_NetworkError e")
        case True
        from "1.IH" [OF lt att [symmetric] Raise True]
        obtain evs2 where
          "snd (get_bid_ask_loop self symbol max_retries (retries + 1) (h1 @ [Sleep 3])) =
             (h1 @ [Sleep 3]) @ evs2" by blast
        with lt att Raise True unfold h1 show ?thesis by simp
      next
        case False
        with lt att Raise unfold h1 show ?thesis by simp
      qed
    qed
  qed
qed

lemma get_bid_ask_loop_rejected_input:
  assumes "client self = None \<or> symbol = PyOther" and "retries < max_retries"
  shows "get_bid_ask_loop self symbol max_retries retries h = (Raise ValueError, h)"
proof -
  from assms(1) have "get_bid_ask_try self symbol h = (Raise ValueError, h)"
    by (cases "client self") (auto simp: get_bid_ask_try_def checked_fetch_ticker_def)
  with assms(2) show ?thesis
    by (subst get_bid_ask_loop.simps) simp
qed

lemma get_bid_ask_loop_sends_string:
  assumes "client self = Some ex" and "retries < max_retries"
  shows "\<exists>r evs. get_bid_ask_loop self (PyStr s) max_retries retries h =
           (r, h @ FetchTicker s # evs)"
proof -
  note unfold = get_bid_ask_loop.simps [of self "PyStr s" max_retries retries h]
  show ?thesis
  proof (cases "ccxt_fetch_ticker ex s h")
    case (Return t)
    with assms unfold show ?thesis
      by (simp add: get_bid_ask_try_def checked_fetch_ticker_def)
  next
    case (Raise e)
    with assms have att: "get_bid_ask_try self (PyStr s) h = (Raise e, h @ [FetchTicker s])"
      by (simp add: get_bid_ask_try_def checked_fetch_ticker_def)
    show ?thesis
    proof (cases "isinstance_NetworkError e")
      case True
      obtain r h2 where res:
        "get_bid_ask_loop self (PyStr s) max_retries (retries + 1) (h @ [FetchTicker s] @ [Sleep 3])
           = (r, h2)"
        by (cases "get_bid_ask_loop self (PyStr s) max_retries (retries + 1)
                     (h @ [FetchTicker s] @ [Sleep 3])")
      from get_bid_ask_loop_extends
             [of self "PyStr s" max_retries "retries + 1" "h @ [FetchTicker s] @ [Sleep 3]"] res
      obtain evs where "h2 = (h @ [FetchTicker s] @ [Sleep 3]) @ evs" by auto
      with res assms att True unfold show ?thesis by simp
    next
      case False
      with assms att unfold show ?thesis by simp
    qed
  qed
qed

text \<open>
  Claim C9, as the code has it. Before any request \<^verbatim>\<open>get_bid_ask\<close> checks that a connection
  exists and that the symbol is a string: otherwise it raises \<^verbatim>\<open>ValueError\<close> and nothing is
  sent. The check is on the type only, so every string, the empty one included, is sent to
  the exchange as the next request.
\<close>

theorem get_bid_ask_validation:
  assumes "0 < max_retries"
  shows "(client self = None \<or> symbol = PyOther \<longrightarrow>
            get_bid_ask self symbol max_retries h = (Raise ValueError, h))
       \<and> (\<forall>ex s. client self = Some ex \<and> symbol = PyStr s \<longrightarrow>
            (\<exists>r evs. get_bid_ask self symbol max_retries h = (r, h @ FetchTicker s # evs)))"
  using assms get_bid_ask_loop_rejected_input [of self symbol 0 max_retries h]
    get_bid_ask_loop_sends_string [of self _ 0 max_retries _ h]
  by (simp add: get_bid_ask_def)

theorem get_bid_ask_validation_witness:
  "get_bid_ask unconnected (PyStr ''BTC/USDT'') 3 [] = (Raise ValueError, [])
   \<and> get_bid_ask (connected_to ok_exchange ''USDT'') PyOther 3 [] = (Raise ValueError, [])
   \<and> (\<exists>r evs. get_bid_ask (connected_to ok_exchange ''USDT'') (PyStr ''BTC/USDT'') 3 [] =
          (r, FetchTicker ''BTC/USDT'' # evs))"
proof -
  have r: "(0::int) < 3" by simp
  have u: "client unconnected = None" by (simp add: unconnected_def)
  from get_bid_ask_validation [OF r, of unconnected "PyStr ''BTC/USDT''" "[]"] u
  have "get_bid_ask unconnected (PyStr ''BTC/USDT'') 3 [] = (Raise ValueError, [])"
    by simp
  moreover from get_bid_ask_validation [OF r, of "connected_to ok_exchange ''USDT''" PyOther "[]"]
  have "get_bid_ask (connected_to ok_exchange ''USDT'') PyOther 3 [] = (Raise ValueError, [])"
    by simp
  moreover from
    get_bid_ask_validation [OF r, of "connected_to ok_exchange ''USDT''" "PyStr ''BTC/USDT''" "[]"]
    connected_to_client [of ok_exchange "''USDT''"]
  have "\<exists>r evs. get_bid_ask (connected_to ok_exchange ''USDT'') (PyStr ''BTC/USDT'') 3 [] =
          (r, FetchTicker ''BTC/USDT'' # evs)"
    by simp
  ultimately show ?thesis by blast
qed

text \<open>
  The claim as written fails: the empty symbol passes the check, the ticker request for it
  is made and its answer is returned.
\<close>

theorem get_bid_ask_empty_symbol_sent:
  "get_bid_ask (connected_to ok_exchange ''USDT'') (PyStr '''') 3 [] =
     (Return (Some 100, Some (201 / 2)), [FetchTicker ''''])"
  by (subst get_bid_ask_def, subst get_bid_ask_loop.simps)
     (simp add: get_bid_ask_try_def checked_fetch_ticker_def connected_to_def ok_exchange_def)

section \<open>The retry loops\<close>

lemma exchange_error_not_network: "isinstance_ExchangeError e \<Longrightarrow> \<not> isinstance_NetworkError e"
  by (cases e) simp_all

subsection \<open>One step of each loop\<close>

lemma create_limit_order_loop_exchange_error:
  assumes "client self = Some ex"
    and "ccxt_create_limit_order ex symbol side_arg amount_arg order_price h = Raise e"
    and "isinstance_ExchangeError e" and "retries < max_retries"
  shows "create_limit_order_loop self symbol side_arg amount_arg order_price max_retries retries h =
           (Return None, h @ [CreateLimitOrder symbol side_arg amount_arg order_price])"
  using assms exchange_error_not_network [OF assms(3)]
  by (subst create_limit_order_loop.simps) simp

lemma get_total_currency_try_raise:
  "client self = Some ex \<Longrightarrow> ccxt_fetch_balance ex h = Raise e \<Longrightarrow>
   get_total_currency_try self currency h = (Raise e, h @ [FetchBalance])"
  by (simp add: get_total_currency_try_def)

lemma get_total_currency_loop_exhausted:
  "\<not> retries < max_retries \<Longrightarrow>
   get_total_currency_loop self currency max_retries retries h = (Return None, h)"
  by (subst get_total_currency_loop.simps) simp

lemma get_total_currency_loop_network_error:
  "get_total_currency_try self currency h = (Raise e, h1) \<Longrightarrow> isinstance_NetworkError e \<Longrightarrow>
   retries < max_retries \<Longrightarrow>
   get_total_currency_loop self currency max_retries retries h =
     get_total_currency_loop self currency max_retries (retries + 1) (h1 @ [Sleep 3])"
  by (subst get_total_currency_loop.simps) simp

lemma get_total_currency_loop_exchange_error:
  "get_total_currency_try self currency h = (Raise e, h1) \<Longrightarrow> isinstance_ExchangeError e \<Longrightarrow>
   retries < max_retries \<Longrightarrow>
   get_total_currency_loop self currency max_retries retries h = (Return None, h1)"
  by (subst get_total_currency_loop.simps) (simp add: exchange_error_not_network)

lemma get_bid_ask_try_raise:
  "client self = Some ex \<Longrightarrow> ccxt_fetch_ticker ex s h = Raise e \<Longrightarrow>
   get_bid_ask_try self (PyStr s) h = (Raise e, h @ [FetchTicker s])"
  by (simp add: get_bid_ask_try_def checked_fetch_ticker_def)

lemma get_bid_ask_loop_exhausted:
  "\<not> retries < max_retries \<Longrightarrow>
   get_bid_ask_loop self symbol max_retries retries h = (Return (None, None), h)"
  by (subst get_bid_ask_loop.simps) simp

lemma get_bid_ask_loop_network_error:
  "get_bid_ask_try self symbol h = (Raise e, h1) \<Longrightarrow> isinstance_NetworkError e \<Longrightarrow>
   retries < max_retries \<Longrightarrow>
   get_bid_ask_loop self symbol max_retries retries h =
     get_bid_ask_loop self symbol max_retries (retries + 1) (h1 @ [Sleep 3])"
  by (subst get_bid_ask_loop.simps) simp

lemma get_bid_ask_loop_exchange_error:
  "get_bid_ask_try self symbol h = (Raise e, h1) \<Longrightarrow> isinstance_ExchangeError e \<Longrightarrow>
   retries < max_retries \<Longrightarrow>
   get_bid_ask_loop self symbol max_retries retries h = (Return (None, None), h1)"
  by (subst get_bid_ask_loop.simps) (simp add: exchange_error_not_network)

lemma get_last_price_try_raise:
  "client self = Some ex \<Longrightarrow> ccxt_fetch_ticker ex s h = Raise e \<Longrightarrow>
   get_last_price_try self (PyStr s) h = (Raise e, h @ [FetchTicker s])"
  by (simp add: get_last_price_try_def checked_fetch_ticker_def)

lemma get_last_price_loop_exhausted:
  "\<not> retries < max_retries \<Longrightarrow>
   get_last_price_loop self symbol max_retries retries h = (Return None, h)"
  by (subst get_last_price_loop.simps) simp

lemma get_last_price_loop_network_error:
  "get_last_price_try self symbol h = (Raise e, h1) \<Longrightarrow> isinstance_NetworkError e \<Longrightarrow>
   retries < max_retries \<Longrightarrow>
   get_last_price_loop self symbol max_retries retries h =
     get_last_price_loop self symbol max_retries (retries + 1) (h1 @ [Sleep 3])"
  by (subst get_last_price_loop.simps) simp

lemma get_last_price_loop_exchange_error:
  "get_last_price_try self symbol h = (Raise e, h1) \<Longrightarrow> isinstance_ExchangeError e \<Longrightarrow>
   retries < max_retries \<Longrightarrow>
   get_last_price_loop self symbol max_retries retries h = (Return None, h1)"
  by (subst get_last_price_loop.simps) (simp add: exchange_error_not_network)

lemma get_most_recent_trade_try_raise:
  "client self = Some ex \<Longrightarrow> ccxt_fetch_my_trades ex symbol h = Raise e \<Longrightarrow>
   get_most_recent_trade_try self symbol h = (Raise e, h @ [FetchMyTrades symbol])"
  by (simp add: get_most_recent_trade_try_def)

lemma get_most_recent_trade_loop_exhausted:
  "\<not> retries < max_retries \<Longrightarrow>
   get_most_recent_trade_loop self symbol max_retries retries h = (Return None, h)"
  by (subst get_most_recent_trade_loop.simps) simp

lemma get_most_recent_trade_loop_network_error:
  "get_most_recent_trade_try self symbol h = (Raise e, h1) \<Longrightarrow> isinstance_NetworkError e \<Longrightarrow>
   retries < max_retries \<Longrightarrow>
   get_most_recent_trade_loop self symbol max_retries retries h =
     get_most_recent_trade_loop self symbol max_retries (retries + 1) (h1 @ [Sleep 3])"
  by (subst get_most_recent_trade_loop.simps) simp

lemma get_most_recent_trade_loop_other_error:
  "get_most_recent_trade_try self symbol h = (Raise e, h1) \<Longrightarrow> \<not> isinstance_NetworkError e \<Longrightarrow>
   retries < max_retries \<Longrightarrow>
   get_most_recent_trade_loop self symbol max_retries retries h = (Raise e, h1)"
  by (subst get_most_recent_trade_loop.simps) simp

lemma get_account_allocation_try_raise:
  "client self = Some ex \<Longrightarrow> ccxt_fetch_balance ex h = Raise e \<Longrightarrow>
   get_account_allocation_try env self h = (Raise e, h @ [FetchBalance])"
  by (simp add: get_account_allocation_try_def)

lemma get_account_allocation_loop_exhausted:
  "\<not> retries < max_retries \<Longrightarrow>
   get_account_allocation_loop env self max_retries retries h = (Return None, h)"
  by (subst get_account_allocation_loop.simps) simp

lemma get_account_allocation_loop_network_error:
  "get_account_allocation_try env self h = (Raise e, h1) \<Longrightarrow> isinstance_NetworkError e \<Longrightarrow>
   retries < max_retries \<Longrightarrow>
   get_account_allocation_loop env self max_retries retries h =
     get_account_allocation_loop env self max_retries (retries + 1) (h1 @ [Sleep 3])"
  by (subst get_account_allocation_loop.simps) simp

lemma get_account_allocation_loop_exchange_error:
  "get_account_allocation_try env self h = (Raise e, h1) \<Longrightarrow> isinstance_ExchangeError e \<Longrightarrow>
   retries < max_retries \<Longrightarrow>
   get_account_allocation_loop env self max_retries retries h = (Return None, h1)"
  by (subst get_account_allocation_loop.simps) (simp add: exchange_error_not_network)

lemma get_account_allocation_loop_other_error:
  "get_account_allocation_try env self h = (Raise e, h1) \<Longrightarrow> \<not> isinstance_NetworkError e \<Longrightarrow>
   \<not> isinstance_ExchangeError e \<Longrightarrow> retries < max_retries \<Longrightarrow>
   get_account_allocation_loop env self max_retries retries h = (Raise e, h1)"
  by (subst get_account_allocation_loop.simps) simp

lemma get_account_allocation_loop_done:
  "get_account_allocation_try env self h = (Return d, h1) \<Longrightarrow> retries < max_retries \<Longrightarrow>
   get_account_allocation_loop env self max_retries retries h = (Return (Some d), h1)"
  by (subst get_account_allocation_loop.simps) simp

lemma connect_try_load_markets_raise:
  assumes "api_key_manager env secret_name h = Return (api_key, api_secret)"
    and "ccxt_bybit env api_key api_secret 6000 (h @ [GetApiKeys secret_name]) = Return ex"
    and "sandbox \<longrightarrow>
           ccxt_set_sandbox_mode ex True
             (h @ [GetApiKeys secret_name, NewExchange api_key api_secret 6000]) = Return ()"
    and "ccxt_load_markets ex
           (h @ butlast (connect_requests secret_name api_key api_secret sandbox)) = Raise e"
  shows "connect_try env self secret_name sandbox h =
           (Raise e, h @ connect_requests secret_name api_key api_secret sandbox)"
  using assms by (cases sandbox) (simp_all add: connect_try_def connect_requests_def)

lemma connect_loop_exhausted:
  "\<not> retries < max_retries \<Longrightarrow>
   connect_loop env self secret_name sandbox max_retries retries h = (Return False, self, h)"
  by (subst connect_loop.simps) simp

lemma connect_loop_network_error:
  "connect_try env self secret_name sandbox h = (Raise e, h1) \<Longrightarrow> isinstance_NetworkError e \<Longrightarrow>
   retries < max_retries \<Longrightarrow>
   connect_loop env self secret_name sandbox max_retries retries h =
     connect_loop env self secret_name sandbox max_retries (retries + 1) (h1 @ [Sleep 3])"
  by (subst connect_loop.simps) simp

lemma connect_loop_exchange_error:
  "connect_try env self secret_name sandbox h = (Raise e, h1) \<Longrightarrow> isinstance_ExchangeError e \<Longrightarrow>
   retries < max_retries \<Longrightarrow>
   connect_loop env self secret_name sandbox max_retries retries h = (Return False, self, h1)"
  by (subst connect_loop.simps) (simp add: exchange_error_not_network)

section \<open>Claims about RetryPolicy: an exchange rejection\<close>

text \<open>
  Claim C2, as the code has it. With at least one attempt allowed, an exchange rejection of
  the first request ends the operation after that single request, with no sleep:
  \<^verbatim>\<open>create_limit_order\<close>, \<^verbatim>\<open>get_total_currency\<close>, \<^verbatim>\<open>get_last_price\<close> and
  \<^verbatim>\<open>get_account_allocation\<close> return \<^verbatim>\<open>None\<close>, \<^verbatim>\<open>get_bid_ask\<close> returns \<^verbatim>\<open>(None, None)\<close>
  and \<^verbatim>\<open>connect\<close> returns \<^verbatim>\<open>False\<close>; \<^verbatim>\<open>get_most_recent_trade\<close> raises the exchange error
  again to its caller.
\<close>

theorem exchange_rejection_ends_operation:
  assumes "0 < max_retries" and "client self = Some ex" and "isinstance_ExchangeError e"
  shows "(ccxt_create_limit_order ex symbol side_arg amount_arg order_price h = Raise e \<longrightarrow>
            create_limit_order self symbol side_arg amount_arg order_price max_retries h =
              (Return None, h @ [CreateLimitOrder symbol side_arg amount_arg order_price]))
       \<and> (ccxt_fetch_balance ex h = Raise e \<longrightarrow>
            get_total_currency self currency max_retries h = (Return None, h @ [FetchBalance]))
       \<and> (ccxt_fetch_balance ex h = Raise e \<longrightarrow>
            get_account_allocation env self max_retries h = (Return None, h @ [FetchBalance]))
       \<and> (ccxt_fetch_ticker ex symbol h = Raise e \<longrightarrow>
            get_bid_ask self (PyStr symbol) max_retries h =
              (Return (None, None), h @ [FetchTicker symbol]))
       \<and> (ccxt_fetch_ticker ex symbol h = Raise e \<longrightarrow>
            get_last_price self (PyStr symbol) max_retries h =
              (Return None, h @ [FetchTicker symbol]))
       \<and> (ccxt_fetch_my_trades ex symbol h = Raise e \<longrightarrow>
            get_most_recent_trade self symbol max_retries h =
              (Raise e, h @ [FetchMyTrades symbol]))
       \<and> (api_key_manager env secret_name h = Return (api_key, api_secret)
            \<and> ccxt_bybit env api_key api_secret 6000 (h @ [GetApiKeys secret_name]) = Return ex
            \<and> (sandbox \<longrightarrow>
                 ccxt_set_sandbox_mode ex True
                   (h @ [GetApiKeys secret_name, NewExchange api_key api_secret 6000]) = Return ())
            \<and> ccxt_load_markets ex
                 (h @ butlast (connect_requests secret_name api_key api_secret sandbox)) = Raise e \<longrightarrow>
            connect env self0 secret_name sandbox max_retries h =
              (Return False, self0, h @ connect_requests secret_name api_key api_secret sandbox))"
proof (intro conjI impI)
  assume "ccxt_create_limit_order ex symbol side_arg amount_arg order_price h = Raise e"
  from create_limit_order_loop_exchange_error [OF assms(2) this assms(3) assms(1)]
  show "create_limit_order self symbol side_arg amount_arg order_price max_retries h =
          (Return None, h @ [CreateLimitOrder symbol side_arg amount_arg order_price])"
    by (simp add: create_limit_order_def)
next
  assume "ccxt_fetch_balance ex h = Raise e"
  from get_total_currency_loop_exchange_error
         [OF get_total_currency_try_raise [OF assms(2) this] assms(3) assms(1)]
  show "get_total_currency self currency max_retries h = (Return None, h @ [FetchBalance])"
    by (simp add: get_total_currency_def)
next
  assume "ccxt_fetch_balance ex h = Raise e"
  from get_account_allocation_loop_exchange_error
         [OF get_account_allocation_try_raise [OF assms(2) this] assms(3) assms(1)]
  show "get_account_allocation env self max_retries h = (Return None, h @ [FetchBalance])"
    by (simp add: get_account_allocation_def)
next
  assume "ccxt_fetch_ticker ex symbol h = Raise e"
  from get_bid_ask_loop_exchange_error [OF get_bid_ask_try_raise [OF assms(2) this] assms(3) assms(1)]
  show "get_bid_ask self (PyStr symbol) max_retries h =
          (Return (None, None), h @ [FetchTicker symbol])"
    by (simp add: get_bid_ask_def)
next
  assume "ccxt_fetch_ticker ex symbol h = Raise e"
  from get_last_price_loop_exchange_error
         [OF get_last_price_try_raise [OF assms(2) this] assms(3) assms(1)]
  show "get_last_price self (PyStr symbol) max_retries h = (Return None, h @ [FetchTicker symbol])"
    by (simp add: get_last_price_def)
next
  assume "ccxt_fetch_my_trades ex symbol h = Raise e"
  from get_most_recent_trade_loop_other_error
         [OF get_most_recent_trade_try_raise [OF assms(2) this]
             exchange_error_not_network [OF assms(3)] assms(1)]
  show "get_most_recent_trade self symbol max_retries h = (Raise e, h @ [FetchMyTrades symbol])"
    by (simp add: get_most_recent_trade_def)
next
  assume a: "api_key_manager env secret_name h = Return (api_key, api_secret)
            \<and> ccxt_bybit env api_key api_secret 6000 (h @ [GetApiKeys secret_name]) = Return ex
            \<and> (sandbox \<longrightarrow>
                 ccxt_set_sandbox_mode ex True
                   (h @ [GetApiKeys secret_name, NewExchange api_key api_secret 6000]) = Return ())
            \<and> ccxt_load_markets ex
                 (h @ butlast (connect_requests secret_name api_key api_secret sandbox)) = Raise e"
  have "connect_try env self0 secret_name sandbox h =
           (Raise e, h @ connect_requests secret_name api_key api_secret sandbox)"
    by (rule connect_try_load_markets_raise) (use a in blast)+
  from connect_loop_exchange_error [OF this assms(3) assms(1)]
  show "connect env self0 secret_name sandbox max_retries h =
          (Return False, self0, h @ connect_requests secret_name api_key api_secret sandbox)"
    by (simp add: connect_def)
qed

text \<open>
  The claim as written fails for the fill-history fetch: the rejection is raised to the
  caller instead of being turned into a failure value.
\<close>

theorem get_most_recent_trade_rejection_raises:
  "get_most_recent_trade (connected_to (raising_exchange ExchangeError) ''USDT'') ''BTC/USDT'' 3 [] =
     (Raise ExchangeError, [FetchMyTrades ''BTC/USDT''])"
  by (subst get_most_recent_trade_def, subst get_most_recent_trade_loop.simps)
     (simp add: get_most_recent_trade_try_def connected_to_def raising_exchange_def)

theorem exchange_rejection_ends_operation_witness:
  "create_limit_order (connected_to (raising_exchange ExchangeError) ''USDT'')
       ''BTC/USDT'' ''buy'' 1 100 3 [] =
     (Return None, [CreateLimitOrder ''BTC/USDT'' ''buy'' 1 100])
   \<and> get_total_currency (connected_to (raising_exchange ExchangeError) ''USDT'') ''USDT'' 3 [] =
       (Return None, [FetchBalance])
   \<and> get_account_allocation (example_env (raising_exchange ExchangeError) [])
         (connected_to (raising_exchange ExchangeError) ''USDT'') 3 [] =
       (Return None, [FetchBalance])
   \<and> get_bid_ask (connected_to (raising_exchange ExchangeError) ''USDT'') (PyStr ''BTC/USDT'') 3 [] =
       (Return (None, None), [FetchTicker ''BTC/USDT''])
   \<and> get_last_price (connected_to (raising_exchange ExchangeError) ''USDT'') (PyStr ''BTC/USDT'') 3 [] =
       (Return None, [FetchTicker ''BTC/USDT''])
   \<and> get_most_recent_trade (connected_to (raising_exchange ExchangeError) ''USDT'') ''BTC/USDT'' 3 [] =
       (Raise ExchangeError, [FetchMyTrades ''BTC/USDT''])
   \<and> connect (example_env (raising_exchange ExchangeError) []) unconnected ''bybit-keys'' True 3 [] =
       (Return False, unconnected,
        [GetApiKeys ''bybit-keys'', NewExchange ''key'' ''secret'' 6000, SetSandboxMode True,
         LoadMarkets])"
proof -
  have r: "(0::int) < 3" by simp
  have x: "isinstance_ExchangeError ExchangeError" by simp
  note c = connected_to_client [of "raising_exchange ExchangeError" "''USDT''"]
  note t = exchange_rejection_ends_operation [OF r c x,
      where symbol = "''BTC/USDT''" and side_arg = "''buy''" and amount_arg = 1
        and order_price = 100 and h = "[]" and currency = "''USDT''"
        and env = "example_env (raising_exchange ExchangeError) []"
        and secret_name = "''bybit-keys''" and api_key = "''key''" and api_secret = "''secret''"
        and sandbox = True and ?self0.0 = unconnected]
  have p: "ccxt_create_limit_order (raising_exchange ExchangeError) ''BTC/USDT'' ''buy'' 1 100 [] =
             Raise ExchangeError"
    "ccxt_fetch_balance (raising_exchange ExchangeError) [] = Raise ExchangeError"
    "ccxt_fetch_ticker (raising_exchange ExchangeError) ''BTC/USDT'' [] = Raise ExchangeError"
    "ccxt_fetch_my_trades (raising_exchange ExchangeError) ''BTC/USDT'' [] = Raise ExchangeError"
    "\<And>h. ccxt_load_markets (raising_exchange ExchangeError) h = Raise ExchangeError"
    "\<And>h. ccxt_set_sandbox_mode (raising_exchange ExchangeError) True h = Return ()"
    by (simp_all add: raising_exchange_def)
  have q: "\<And>h. api_key_manager (example_env (raising_exchange ExchangeError) []) ''bybit-keys'' h =
             Return (''key'', ''secret'')"
    "\<And>h. ccxt_bybit (example_env (raising_exchange ExchangeError) []) ''key'' ''secret'' 6000 h =
             Return (raising_exchange ExchangeError)"
    by (simp_all add: example_env_def)
  from t show ?thesis
    by (simp add: p q connect_requests_def)
qed

section \<open>Claims about RetryPolicy: network errors on every attempt\<close>

lemma create_limit_order_always_network:
  assumes "client self = Some ex"
    and "\<forall>h. \<exists>e. isinstance_NetworkError e
           \<and> ccxt_create_limit_order ex symbol side_arg amount_arg order_price h = Raise e"
    and "retries < max_retries"
  shows "create_limit_order_loop self symbol side_arg amount_arg order_price max_retries retries h =
         create_limit_order_loop self symbol side_arg amount_arg order_price max_retries (retries + 1)
           (h @ [CreateLimitOrder symbol side_arg amount_arg order_price, Sleep 3])"
proof -
  from assms(2) obtain e where "isinstance_NetworkError e"
    and "ccxt_create_limit_order ex symbol side_arg amount_arg order_price h = Raise e"
    by blast
  from create_limit_order_loop_network_error [OF assms(1) this(2) this(1) assms(3)]
  show ?thesis .
qed

lemma get_total_currency_always_network:
  assumes "client self = Some ex"
    and "\<forall>h. \<exists>e. isinstance_NetworkError e \<and> ccxt_fetch_balance ex h = Raise e"
    and "retries < max_retries"
  shows "get_total_currency_loop self currency max_retries retries h =
         get_total_currency_loop self currency max_retries (retries + 1)
           (h @ [FetchBalance, Sleep 3])"
proof -
  from assms(2) obtain e where "isinstance_NetworkError e" and "ccxt_fetch_balance ex h = Raise e"
    by blast
  from get_total_currency_loop_network_error
         [OF get_total_currency_try_raise [OF assms(1) this(2)] this(1) assms(3)]
  show ?thesis by simp
qed

lemma get_account_allocation_always_network:
  assumes "client self = Some ex"
    and "\<forall>h. \<exists>e. isinstance_NetworkError e \<and> ccxt_fetch_balance ex h = Raise e"
    and "retries < max_retries"
  shows "get_account_allocation_loop env self max_retries retries h =
         get_account_allocation_loop env self max_retries (retries + 1)
           (h @ [FetchBalance, Sleep 3])"
proof -
  from assms(2) obtain e where "isinstance_NetworkError e" and "ccxt_fetch_balance ex h = Raise e"
    by blast
  from get_account_allocation_loop_network_error
         [OF get_account_allocation_try_raise [OF assms(1) this(2)] this(1) assms(3)]
  show ?thesis by simp
qed

lemma get_bid_ask_always_network:
  assumes "client self = Some ex"
    and "\<forall>h. \<exists>e. isinstance_NetworkError e \<and> ccxt_fetch_ticker ex symbol h = Raise e"
    and "retries < max_retries"
  shows "get_bid_ask_loop self (PyStr symbol) max_retries retries h =
         get_bid_ask_loop self (PyStr symbol) max_retries (retries + 1)
           (h @ [FetchTicker symbol, Sleep 3])"
proof -
  from assms(2) obtain e where "isinstance_NetworkError e"
    and "ccxt_fetch_ticker ex symbol h = Raise e"
    by blast
  from get_bid_ask_loop_network_error
         [OF get_bid_ask_try_raise [OF assms(1) this(2)] this(1) assms(3)]
  show ?thesis by simp
qed

lemma get_last_price_always_network:
  assumes "client self = Some ex"
    and "\<forall>h. \<exists>e. isinstance_NetworkError e \<and> ccxt_fetch_ticker ex symbol h = Raise e"
    and "retries < max_retries"
  shows "get_last_price_loop self (PyStr symbol) max_retries retries h =
         get_last_price_loop self (PyStr symbol) max_retries (retries + 1)
           (h @ [FetchTicker symbol, Sleep 3])"
proof -
  from assms(2) obtain e where "isinstance_NetworkError e"
    and "ccxt_fetch_ticker ex symbol h = Raise e"
    by blast
  from get_last_price_loop_network_error
         [OF get_last_price_try_raise [OF assms(1) this(2)] this(1) assms(3)]
  show ?thesis by simp
qed

lemma get_most_recent_trade_always_network:
  assumes "client self = Some ex"
    and "\<forall>h. \<exists>e. isinstance_NetworkError e \<and> ccxt_fetch_my_trades ex symbol h = Raise e"
    and "retries < max_retries"
  shows "get_most_recent_trade_loop self symbol max_retries retries h =
         get_most_recent_trade_loop self symbol max_retries (retries + 1)
           (h @ [FetchMyTrades symbol, Sleep 3])"
proof -
  from assms(2) obtain e where "isinstance_NetworkError e"
    and "ccxt_fetch_my_trades ex symbol h = Raise e"
    by blast
  from get_most_recent_trade_loop_network_error
         [OF get_most_recent_trade_try_raise [OF assms(1) this(2)] this(1) assms(3)]
  show ?thesis by simp
qed

lemma connect_always_network:
  assumes "\<forall>h. api_key_manager env secret_name h = Return (api_key, api_secret)"
    and "\<forall>h. ccxt_bybit env api_key api_secret 6000 h = Return ex"
    and "\<forall>h. ccxt_set_sandbox_mode ex True h = Return ()"
    and "\<forall>h. \<exists>e. isinstance_NetworkError e \<and> ccxt_load_markets ex h = Raise e"
    and "retries < max_retries"
  shows "connect_loop env self secret_name sandbox max_retries retries h =
         connect_loop env self secret_name sandbox max_retries (retries + 1)
           (h @ connect_requests secret_name api_key api_secret sandbox @ [Sleep 3])"
proof -
  from assms(4) obtain e where e: "isinstance_NetworkError e"
    and "ccxt_load_markets ex
           (h @ butlast (connect_requests secret_name api_key api_secret sandbox)) = Raise e"
    by blast
  with assms(1-3) have "connect_try env self secret_name sandbox h =
           (Raise e, h @ connect_requests secret_name api_key api_secret sandbox)"
    by (intro connect_try_load_markets_raise) blast+
  from connect_loop_network_error [OF this e assms(5)]
  show ?thesis by simp
qed

text \<open>
  Claim C6. With \<^verbatim>\<open>max_retries = 3\<close> and a network error on every attempt, each
  retry-wrapped operation makes exactly three attempts, sleeping after each, and then
  returns its failure value (\<^verbatim>\<open>None\<close>, \<^verbatim>\<open>(None, None)\<close> or \<^verbatim>\<open>False\<close>) without raising.
\<close>

theorem network_errors_exhaust_three_attempts:
  assumes "client self = Some ex"
  shows "((\<forall>h. \<exists>e. isinstance_NetworkError e
              \<and> ccxt_create_limit_order ex symbol side_arg amount_arg order_price h = Raise e) \<longrightarrow>
            create_limit_order self symbol side_arg amount_arg order_price 3 h =
              (Return None,
               h @ [CreateLimitOrder symbol side_arg amount_arg order_price, Sleep 3,
                    CreateLimitOrder symbol side_arg amount_arg order_price, Sleep 3,
                    CreateLimitOrder symbol side_arg amount_arg order_price, Sleep 3]))
       \<and> ((\<forall>h. \<exists>e. isinstance_NetworkError e \<and> ccxt_fetch_balance ex h = Raise e) \<longrightarrow>
            get_total_currency self currency 3 h =
              (Return None, h @ [FetchBalance, Sleep 3, FetchBalance, Sleep 3, FetchBalance, Sleep 3]))
       \<and> ((\<forall>h. \<exists>e. isinstance_NetworkError e \<and> ccxt_fetch_balance ex h = Raise e) \<longrightarrow>
            get_account_allocation env self 3 h =
              (Return None, h @ [FetchBalance, Sleep 3, FetchBalance, Sleep 3, FetchBalance, Sleep 3]))
       \<and> ((\<forall>h. \<exists>e. isinstance_NetworkError e \<and> ccxt_fetch_ticker ex symbol h = Raise e) \<longrightarrow>
            get_bid_ask self (PyStr symbol) 3 h =
              (Return (None, None),
               h @ [FetchTicker symbol, Sleep 3, FetchTicker symbol, Sleep 3,
                    FetchTicker symbol, Sleep 3]))
       \<and> ((\<forall>h. \<exists>e. isinstance_NetworkError e \<and> ccxt_fetch_ticker ex symbol h = Raise e) \<longrightarrow>
            get_last_price self (PyStr symbol) 3 h =
              (Return None,
               h @ [FetchTicker symbol, Sleep 3, FetchTicker symbol, Sleep 3,
                    FetchTicker symbol, Sleep 3]))
       \<and> ((\<forall>h. \<exists>e. isinstance_NetworkError e \<and> ccxt_fetch_my_trades ex symbol h = Raise e) \<longrightarrow>
            get_most_recent_trade self symbol 3 h =
              (Return None,
               h @ [FetchMyTrades symbol, Sleep 3, FetchMyTrades symbol, Sleep 3,
                    FetchMyTrades symbol, Sleep 3]))
       \<and> ((\<forall>h. api_key_manager env secret_name h = Return (api_key, api_secret))
            \<and> (\<forall>h. ccxt_bybit env api_key api_secret 6000 h = Return ex)
            \<and> (\<forall>h. ccxt_set_sandbox_mode ex True h = Return ())
            \<and> (\<forall>h. \<exists>e. isinstance_NetworkError e \<and> ccxt_load_markets ex h = Raise e) \<longrightarrow>
            connect env self0 secret_name sandbox 3 h =
              (Return False, self0,
               h @ connect_requests secret_name api_key api_secret sandbox @ [Sleep 3]
                 @ connect_requests secret_name api_key api_secret sandbox @ [Sleep 3]
                 @ connect_requests secret_name api_key api_secret sandbox @ [Sleep 3]))"
proof (intro conjI impI)
  assume a: "\<forall>h. \<exists>e. isinstance_NetworkError e
              \<and> ccxt_create_limit_order ex symbol side_arg amount_arg order_price h = Raise e"
  note s = create_limit_order_always_network [OF assms a]
  show "create_limit_order self symbol side_arg amount_arg order_price 3 h =
              (Return None,
               h @ [CreateLimitOrder symbol side_arg amount_arg order_price, Sleep 3,
                    CreateLimitOrder symbol side_arg amount_arg order_price, Sleep 3,
                    CreateLimitOrder symbol side_arg amount_arg order_price, Sleep 3])"
    by (simp add: create_limit_order_def s create_limit_order_loop_exhausted)
next
  assume a: "\<forall>h. \<exists>e. isinstance_NetworkError e \<and> ccxt_fetch_balance ex h = Raise e"
  note s = get_total_currency_always_network [OF assms a]
  show "get_total_currency self currency 3 h =
          (Return None, h @ [FetchBalance, Sleep 3, FetchBalance, Sleep 3, FetchBalance, Sleep 3])"
    by (simp add: get_total_currency_def s get_total_currency_loop_exhausted)
next
  assume a: "\<forall>h. \<exists>e. isinstance_NetworkError e \<and> ccxt_fetch_balance ex h = Raise e"
  note s = get_account_allocation_always_network [OF assms a]
  show "get_account_allocation env self 3 h =
          (Return None, h @ [FetchBalance, Sleep 3, FetchBalance, Sleep 3, FetchBalance, Sleep 3])"
    by (simp add: get_account_allocation_def s get_account_allocation_loop_exhausted)
next
  assume a: "\<forall>h. \<exists>e. isinstance_NetworkError e \<and> ccxt_fetch_ticker ex symbol h = Raise e"
  note s = get_bid_ask_always_network [OF assms a]
  show "get_bid_ask self (PyStr symbol) 3 h =
          (Return (None, None),
           h @ [FetchTicker symbol, Sleep 3, FetchTicker symbol, Sleep 3,
                FetchTicker symbol, Sleep 3])"
    by (simp add: get_bid_ask_def s get_bid_ask_loop_exhausted)
next
  assume a: "\<forall>h. \<exists>e. isinstance_NetworkError e \<and> ccxt_fetch_ticker ex symbol h = Raise e"
  note s = get_last_price_always_network [OF assms a]
  show "get_last_price self (PyStr symbol) 3 h =
          (Return None,
           h @ [FetchTicker symbol, Sleep 3, FetchTicker symbol, Sleep 3,
                FetchTicker symbol, Sleep 3])"
    by (simp add: get_last_price_def s get_last_price_loop_exhausted)
next
  assume a: "\<forall>h. \<exists>e. isinstance_NetworkError e \<and> ccxt_fetch_my_trades ex symbol h = Raise e"
  note s = get_most_recent_trade_always_network [OF assms a]
  show "get_most_recent_trade self symbol 3 h =
          (Return None,
           h @ [FetchMyTrades symbol, Sleep 3, FetchMyTrades symbol, Sleep 3,
                FetchMyTrades symbol, Sleep 3])"
    by (simp add: get_most_recent_trade_def s get_most_recent_trade_loop_exhausted)
next
  assume a: "(\<forall>h. api_key_manager env secret_name h = Return (api_key, api_secret))
            \<and> (\<forall>h. ccxt_bybit env api_key api_secret 6000 h = Return ex)
            \<and> (\<forall>h. ccxt_set_sandbox_mode ex True h = Return ())
            \<and> (\<forall>h. \<exists>e. isinstance_NetworkError e \<and> ccxt_load_markets ex h = Raise e)"
  have s: "\<And>retries h. retries < 3 \<Longrightarrow>
         connect_loop env self0 secret_name sandbox 3 retries h =
         connect_loop env self0 secret_name sandbox 3 (retries + 1)
           (h @ connect_requests secret_name api_key api_secret sandbox @ [Sleep 3])"
    by (rule connect_always_network) (use a in blast)+
  show "connect env self0 secret_name sandbox 3 h =
              (Return False, self0,
               h @ connect_requests secret_name api_key api_secret sandbox @ [Sleep 3]
                 @ connect_requests secret_name api_key api_secret sandbox @ [Sleep 3]
                 @ connect_requests secret_name api_key api_secret sandbox @ [Sleep 3])"
    by (simp add: connect_def s connect_loop_exhausted)
qed

theorem network_errors_exhaust_three_attempts_witness:
  "create_limit_order (connected_to (raising_exchange NetworkError) ''USDT'')
       ''BTC/USDT'' ''sell'' 2 101 3 [] =
     (Return None,
      [CreateLimitOrder ''BTC/USDT'' ''sell'' 2 101, Sleep 3,
       CreateLimitOrder ''BTC/USDT'' ''sell'' 2 101, Sleep 3,
       CreateLimitOrder ''BTC/USDT'' ''sell'' 2 101, Sleep 3])
   \<and> get_total_currency (connected_to (raising_exchange NetworkError) ''USDT'') ''USDT'' 3 [] =
       (Return None, [FetchBalance, Sleep 3, FetchBalance, Sleep 3, FetchBalance, Sleep 3])
   \<and> get_account_allocation (example_env (raising_exchange NetworkError) [])
         (connected_to (raising_exchange NetworkError) ''USDT'') 3 [] =
       (Return None, [FetchBalance, Sleep 3, FetchBalance, Sleep 3, FetchBalance, Sleep 3])
   \<and> get_bid_ask (connected_to (raising_exchange NetworkError) ''USDT'') (PyStr ''BTC/USDT'') 3 [] =
       (Return (None, None),
        [FetchTicker ''BTC/USDT'', Sleep 3, FetchTicker ''BTC/USDT'', Sleep 3,
         FetchTicker ''BTC/USDT'', Sleep 3])
   \<and> get_last_price (connected_to (raising_exchange NetworkError) ''USDT'') (PyStr ''BTC/USDT'') 3 [] =
       (Return None,
        [FetchTicker ''BTC/USDT'', Sleep 3, FetchTicker ''BTC/USDT'', Sleep 3,
         FetchTicker ''BTC/USDT'', Sleep 3])
   \<and> get_most_recent_trade (connected_to (raising_exchange NetworkError) ''USDT'') ''BTC/USDT'' 3 [] =
       (Return None,
        [FetchMyTrades ''BTC/USDT'', Sleep 3, FetchMyTrades ''BTC/USDT'', Sleep 3,
         FetchMyTrades ''BTC/USDT'', Sleep 3])
   \<and> connect (example_env (raising_exchange NetworkError) []) unconnected ''bybit-keys'' False 3 [] =
       (Return False, unconnected,
        [GetApiKeys ''bybit-keys'', NewExchange ''key'' ''secret'' 6000, LoadMarkets, Sleep 3,
         GetApiKeys ''bybit-keys'', NewExchange ''key'' ''secret'' 6000, LoadMarkets, Sleep 3,
         GetApiKeys ''bybit-keys'', NewExchange ''key'' ''secret'' 6000, LoadMarkets, Sleep 3])"
proof -
  note c = connected_to_client [of "raising_exchange NetworkError" "''USDT''"]
  note t = network_errors_exhaust_three_attempts [OF c,
      where symbol = "''BTC/USDT''" and side_arg = "''sell''" and amount_arg = 2
        and order_price = 101 and h = "[]" and currency = "''USDT''"
        and env = "example_env (raising_exchange NetworkError) []"
        and secret_name = "''bybit-keys''" and api_key = "''key''" and api_secret = "''secret''"
        and sandbox = False and ?self0.0 = unconnected]
  have p: "\<And>h. ccxt_create_limit_order (raising_exchange NetworkError) ''BTC/USDT'' ''sell'' 2 101 h =
             Raise NetworkError"
    "\<And>h. ccxt_fetch_balance (raising_exchange NetworkError) h = Raise NetworkError"
    "\<And>h. ccxt_fetch_ticker (raising_exchange NetworkError) ''BTC/USDT'' h = Raise NetworkError"
    "\<And>h. ccxt_fetch_my_trades (raising_exchange NetworkError) ''BTC/USDT'' h = Raise NetworkError"
    "\<And>h. ccxt_load_markets (raising_exchange NetworkError) h = Raise NetworkError"
    "\<And>h. ccxt_set_sandbox_mode (raising_exchange NetworkError) True h = Return ()"
    by (simp_all add: raising_exchange_def)
  have q: "\<And>h. api_key_manager (example_env (raising_exchange NetworkError) []) ''bybit-keys'' h =
             Return (''key'', ''secret'')"
    "\<And>h. ccxt_bybit (example_env (raising_exchange NetworkError) []) ''key'' ''secret'' 6000 h =
             Return (raising_exchange NetworkError)"
    by (simp_all add: example_env_def)
  from t show ?thesis
    by (simp add: p q connect_requests_def)
qed

section \<open>Claims about \<^verbatim>\<open>get_total_usd\<close>\<close>

lemma sum_is_unbound:
  "load_fast [''allocation_dict'' \<mapsto> LocalDict allocation_dict] ''sum'' = Raise UnboundLocalError"
  by (simp add: load_fast_def)

text \<open>
  Claim C10, as the code has it. \<^verbatim>\<open>get_total_usd\<close> never produces a value: when
  \<^verbatim>\<open>get_account_allocation\<close> returns (a dictionary or \<^verbatim>\<open>None\<close>), reading the local name
  \<^verbatim>\<open>sum\<close> raises \<^verbatim>\<open>UnboundLocalError\<close>; when \<^verbatim>\<open>get_account_allocation\<close> raises, that
  exception leaves \<^verbatim>\<open>get_total_usd\<close> instead.
\<close>

theorem get_total_usd_always_raises:
  "(\<exists>e h'. get_total_usd env self h = (Raise e, h'))
   \<and> (\<forall>d h1. get_account_allocation env self 3 h = (Return d, h1) \<longrightarrow>
         get_total_usd env self h = (Raise UnboundLocalError, h1))
   \<and> (\<forall>e h1. get_account_allocation env self 3 h = (Raise e, h1) \<longrightarrow>
         get_total_usd env self h = (Raise e, h1))"
proof -
  obtain r h1 where a: "get_account_allocation env self 3 h = (r, h1)"
    by (cases "get_account_allocation env self 3 h")
  show ?thesis
  proof (cases r)
    case (Return d)
    with a show ?thesis by (simp add: get_total_usd_def sum_is_unbound)
  next
    case (Raise e)
    with a show ?thesis by (simp add: get_total_usd_def)
  qed
qed

lemma unconnected_allocation_raises:
  "get_account_allocation env unconnected 3 h = (Raise AttributeError, h)"
  by (subst get_account_allocation_def, subst get_account_allocation_loop.simps)
     (simp add: get_account_allocation_try_def unconnected_def)

lemma no_strategy_allocation:
  "get_account_allocation (example_env ok_exchange []) (connected_to ok_exchange ''USDT'') 3 [] =
     (Return (Some [(''USD'', PyNum 50)]), [FetchBalance, GetActiveStrategyConfigs])"
  by (subst get_account_allocation_def, subst get_account_allocation_loop.simps)
     (simp add: get_account_allocation_try_def connected_to_def ok_exchange_def example_env_def)

theorem get_total_usd_always_raises_witness:
  "get_total_usd (example_env ok_exchange []) (connected_to ok_exchange ''USDT'') [] =
     (Raise UnboundLocalError, [FetchBalance, GetActiveStrategyConfigs])
   \<and> get_total_usd (example_env ok_exchange []) unconnected [] = (Raise AttributeError, [])"
  using get_total_usd_always_raises
          [of "example_env ok_exchange []" "connected_to ok_exchange ''USDT''" "[]"]
        get_total_usd_always_raises [of "example_env ok_exchange []" unconnected "[]"]
        no_strategy_allocation unconnected_allocation_raises [of "example_env ok_exchange []" "[]"]
  by simp

text \<open>
  The claim as written fails for a receiver that is not connected: the fault that leaves
  \<^verbatim>\<open>get_total_usd\<close> is the \<^verbatim>\<open>AttributeError\<close> of \<^verbatim>\<open>get_account_allocation\<close>, raised before
  the local name \<^verbatim>\<open>sum\<close> is ever read.
\<close>

theorem get_total_usd_unconnected_attribute_error:
  "get_total_usd (example_env ok_exchange []) unconnected [] = (Raise AttributeError, [])
   \<and> AttributeError \<noteq> UnboundLocalError"
  by (simp add: get_total_usd_def unconnected_allocation_raises)

section \<open>Claims about AllocationCalculator\<close>

lemma allocate_configs_step:
  assumes "allocate_configs self (config # rest) d0 h = (Return d, h')"
  shows "\<exists>v h1. allocate_configs self rest
                   (AList.update (config_currency config) (PyFloat v) d0) h1 = (Return d, h')
           \<and> (fst (get_most_recent_trade self (config_symbol config) 3 h)
                  \<in> {Return None, Return (Some [])} \<longrightarrow> v = Fin 0)"
proof -
  obtain r h1 where g: "get_most_recent_trade self (config_symbol config) 3 h = (r, h1)"
    by (cases "get_most_recent_trade self (config_symbol config) 3 h")
  show ?thesis
  proof (cases r)
    case (Raise e)
    with assms g show ?thesis by simp
  next
    case (Return trades)
    show ?thesis
    proof (cases trades)
      case None
      with assms g Return
      have "allocate_configs self rest (AList.update (config_currency config) (PyNum 0) d0) h1 =
              (Return d, h')"
        by simp
      then show ?thesis by blast
    next
      case (Some ts)
      show ?thesis
      proof (cases ts)
        case Nil
        with assms g Return Some
        have "allocate_configs self rest (AList.update (config_currency config) (PyNum 0) d0) h1 =
                (Return d, h')"
          by simp
        then show ?thesis by blast
      next
        case (Cons t ts')
        show ?thesis
        proof (cases "get_trade_value_usd (t # ts')")
          case (Raise e)
          with assms g Return Some Cons show ?thesis by simp
        next
          case (Return v) note v = this
          with assms g \<open>r = Return trades\<close> Some Cons
          have "allocate_configs self rest (AList.update (config_currency config) (PyFloat v) d0) h1 =
                  (Return d, h')"
            by simp
          moreover from g \<open>r = Return trades\<close> Some Cons
          have "fst (get_most_recent_trade self (config_symbol config) 3 h)
                  \<notin> {Return None, Return (Some [])}"
            by simp
          ultimately show ?thesis by blast
        qed
      qed
    qed
  qed
qed

lemma allocate_configs_keys:
  "allocate_configs self configs d0 h = (Return d, h') \<Longrightarrow>
   fst ` set d = fst ` set d0 \<union> config_currency ` set configs
   \<and> (distinct (map fst d0) \<longrightarrow> distinct (map fst d))
   \<and> (\<forall>k. k \<notin> config_currency ` set configs \<longrightarrow> map_of d k = map_of d0 k)"
proof (induction configs arbitrary: d0 h)
  case Nil
  then show ?case by simp
next
  case (Cons config rest)
  from allocate_configs_step [OF Cons.prems] obtain v h1 where
    "allocate_configs self rest (AList.update (config_currency config) (PyFloat v) d0) h1 =
       (Return d, h')"
    by blast
  from Cons.IH [OF this] show ?case
    by (simp add: dom_update distinct_update update_conv' insert_commute Un_commute)
qed

lemma allocate_configs_zero:
  "allocate_configs self configs d0 h = (Return d, h') \<Longrightarrow>
   \<forall>c \<in> set configs. config_currency c = cur \<longrightarrow>
      (\<forall>h. fst (get_most_recent_trade self (config_symbol c) 3 h)
              \<in> {Return None, Return (Some [])}) \<Longrightarrow>
   map_of d cur =
     (if cur \<in> config_currency ` set configs then Some (PyNum 0) else map_of d0 cur)"
proof (induction configs arbitrary: d0 h)
  case Nil
  then show ?case by simp
next
  case (Cons config rest)
  from allocate_configs_step [OF Cons.prems(1)] obtain v h1 where
    rest: "allocate_configs self rest (AList.update (config_currency config) (PyFloat v) d0) h1 =
       (Return d, h')"
    and v: "fst (get_most_recent_trade self (config_symbol config) 3 h)
                  \<in> {Return None, Return (Some [])} \<longrightarrow> v = Fin 0"
    by blast
  from Cons.prems(2) have "\<forall>c \<in> set rest. config_currency c = cur \<longrightarrow>
      (\<forall>h. fst (get_most_recent_trade self (config_symbol c) 3 h)
              \<in> {Return None, Return (Some [])})"
    by simp
  from Cons.IH [OF rest this]
  have ih: "map_of d cur =
     (if cur \<in> config_currency ` set rest then Some (PyNum 0)
      else map_of (AList.update (config_currency config) (PyFloat v) d0) cur)" .
  show ?case
  proof (cases "config_currency config = cur")
    case True
    with Cons.prems(2) v have "v = Fin 0" by simp
    with ih True show ?thesis by (simp add: update_conv')
  next
    case False
    with ih show ?thesis by (simp add: update_conv')
  qed
qed

lemma get_account_allocation_try_Return:
  assumes "get_account_allocation_try env self h = (Return d, h')"
  shows "\<exists>ex balance free configs.
           client self = Some ex \<and> ccxt_fetch_balance ex h = Return balance
           \<and> balance ''free'' = Some free
           \<and> get_active_strategy_configs env (h @ [FetchBalance]) = Return configs
           \<and> allocate_configs self configs
                 (AList.update ''USD''
                    (case free (base_currency self) of None \<Rightarrow> PyNone | Some x \<Rightarrow> PyNum x) [])
                 (h @ [FetchBalance, GetActiveStrategyConfigs]) = (Return d, h')"
proof -
  from assms obtain ex where ex: "client self = Some ex"
    by (cases "client self") (simp_all add: get_account_allocation_try_def)
  with assms obtain balance where b: "ccxt_fetch_balance ex h = Return balance"
    by (cases "ccxt_fetch_balance ex h") (simp_all add: get_account_allocation_try_def)
  with assms ex obtain free where f: "balance ''free'' = Some free"
    by (cases "balance ''free''") (simp_all add: get_account_allocation_try_def)
  with assms ex b obtain configs where
    c: "get_active_strategy_configs env (h @ [FetchBalance]) = Return configs"
    by (cases "get_active_strategy_configs env (h @ [FetchBalance])")
       (simp_all add: get_account_allocation_try_def)
  from assms ex b f c
  have "allocate_configs self configs
          (AList.update ''USD''
             (case free (base_currency self) of None \<Rightarrow> PyNone | Some x \<Rightarrow> PyNum x) [])
          (h @ [FetchBalance, GetActiveStrategyConfigs]) = (Return d, h')"
    by (simp add: get_account_allocation_try_def)
  with ex b f c show ?thesis by blast
qed

lemma get_account_allocation_loop_Return:
  "get_account_allocation_loop env self max_retries retries h = (Return (Some d), h')
   \<Longrightarrow> \<exists>h0. get_account_allocation_try env self h0 = (Return d, h')"
proof (induction env self max_retries retries h rule: get_account_allocation_loop.induct)
  case (1 env self max_retries retries h)
  note step = "1.prems"
    [unfolded get_account_allocation_loop.simps [of env self max_retries retries h]]
  obtain r h1 where att: "get_account_allocation_try env self h = (r, h1)"
    by (cases "get_account_allocation_try env self h")
  from step have lt: "retries < max_retries"
    by (simp split: if_splits)
  show ?case
  proof (cases r)
    case (Return v)
    with att lt step have "v = d" "h1 = h'" by simp_all
    with att Return show ?thesis by blast
  next
    case (Raise e)
    with att lt step have net: "isinstance_NetworkError e"
      by (simp split: if_splits)
    with Raise att lt step
    have rec: "get_account_allocation_loop env self max_retries (retries + 1) (h1 @ [Sleep 3])
                  = (Return (Some d), h')"
      by simp
    from "1.IH" [OF lt att [symmetric] Raise net rec] show ?thesis .
  qed
qed

text \<open>
  Claim C5, as the code has it. In the mapping a successful \<^verbatim>\<open>get_account_allocation\<close>
  returns, the keys are the literal \<^verbatim>\<open>"USD"\<close> and the currencies of the active strategy
  configurations, each key once. Unless a strategy's currency is itself \<^verbatim>\<open>"USD"\<close>, the
  \<^verbatim>\<open>"USD"\<close> entry holds the free balance of the configured base currency. The entry of a
  strategy currency is 0 when no matched trades exist for the symbol of any strategy with
  that currency.
\<close>

theorem account_allocation_entries:
  assumes "get_account_allocation env self max_retries h = (Return (Some d), h')"
  shows "\<exists>ex balance free configs h0.
           client self = Some ex \<and> ccxt_fetch_balance ex h0 = Return balance
           \<and> balance ''free'' = Some free
           \<and> get_active_strategy_configs env (h0 @ [FetchBalance]) = Return configs
           \<and> fst ` set d = insert ''USD'' (config_currency ` set configs)
           \<and> distinct (map fst d)
           \<and> (''USD'' \<notin> config_currency ` set configs \<longrightarrow>
                map_of d ''USD'' =
                  Some (case free (base_currency self) of None \<Rightarrow> PyNone | Some x \<Rightarrow> PyNum x))
           \<and> (\<forall>cur \<in> config_currency ` set configs.
                 (\<forall>c \<in> set configs. config_currency c = cur \<longrightarrow>
                    (\<forall>h. fst (get_most_recent_trade self (config_symbol c) 3 h)
                            \<in> {Return None, Return (Some [])})) \<longrightarrow>
                 map_of d cur = Some (PyNum 0))"
proof -
  from assms obtain h0 where "get_account_allocation_try env self h0 = (Return d, h')"
    unfolding get_account_allocation_def by (blast dest: get_account_allocation_loop_Return)
  from get_account_allocation_try_Return [OF this]
  obtain ex balance free configs where
    ex: "client self = Some ex" and b: "ccxt_fetch_balance ex h0 = Return balance"
    and f: "balance ''free'' = Some free"
    and c: "get_active_strategy_configs env (h0 @ [FetchBalance]) = Return configs"
    and a: "allocate_configs self configs
              (AList.update ''USD''
                 (case free (base_currency self) of None \<Rightarrow> PyNone | Some x \<Rightarrow> PyNum x) [])
              (h0 @ [FetchBalance, GetActiveStrategyConfigs]) = (Return d, h')"
    by blast
  from allocate_configs_keys [OF a]
  have k: "fst ` set d = insert ''USD'' (config_currency ` set configs)"
    and dist: "distinct (map fst d)"
    and usd: "''USD'' \<notin> config_currency ` set configs \<longrightarrow>
                map_of d ''USD'' =
                  Some (case free (base_currency self) of None \<Rightarrow> PyNone | Some x \<Rightarrow> PyNum x)"
    by simp_all
  have z: "\<forall>cur \<in> config_currency ` set configs.
                 (\<forall>c \<in> set configs. config_currency c = cur \<longrightarrow>
                    (\<forall>h. fst (get_most_recent_trade self (config_symbol c) 3 h)
                            \<in> {Return None, Return (Some [])})) \<longrightarrow>
                 map_of d cur = Some (PyNum 0)"
  proof (intro ballI impI)
    fix cur
    assume m: "cur \<in> config_currency ` set configs"
      and n: "\<forall>c \<in> set configs. config_currency c = cur \<longrightarrow>
                    (\<forall>h. fst (get_most_recent_trade self (config_symbol c) 3 h)
                            \<in> {Return None, Return (Some [])})"
    from allocate_configs_zero [OF a n] m show "map_of d cur = Some (PyNum 0)" by simp
  qed
  from ex b f c k dist usd z show ?thesis by blast
qed

lemma ok_exchange_recent_btc:
  "get_most_recent_trade (connected_to ok_exchange base) ''BTC/USDT'' 3 h =
     (Return (Some [buy 3 300]), h @ [FetchMyTrades ''BTC/USDT''])"
proof -
  have f: "ccxt_fetch_my_trades ok_exchange ''BTC/USDT'' h = Return [buy 1 100, sell 1, buy 3 300]"
    by (simp add: ok_exchange_def)
  have r: "(0::int) < 3" by simp
  have m: "match_trades [buy 1 100, sell 1, buy 3 300] = [buy 3 300]"
    by (simp add: match_trades_def slice_last_def buy_def sell_def)
  from get_most_recent_trade_loop_fetched [OF connected_to_client f r] m
  show ?thesis by (simp add: get_most_recent_trade_def)
qed

lemma ok_exchange_recent_eth:
  "get_most_recent_trade (connected_to ok_exchange base) ''ETH/USDT'' 3 h =
     (Return (Some []), h @ [FetchMyTrades ''ETH/USDT''])"
proof -
  have f: "ccxt_fetch_my_trades ok_exchange ''ETH/USDT'' h = Return []"
    by (simp add: ok_exchange_def)
  have r: "(0::int) < 3" by simp
  from get_most_recent_trade_loop_fetched [OF connected_to_client f r]
  show ?thesis by (simp add: get_most_recent_trade_def match_trades_def)
qed

lemma two_strategy_allocation:
  "get_account_allocation (example_env ok_exchange [btc_strategy, eth_strategy])
       (connected_to ok_exchange ''USDT'') 3 [] =
     (Return (Some [(''USD'', PyNum 50), (''BTC'', PyNum 300), (''ETH'', PyNum 0)]),
      [FetchBalance, GetActiveStrategyConfigs, FetchMyTrades ''BTC/USDT'',
       FetchMyTrades ''ETH/USDT''])"
proof -
  have v: "get_trade_value_usd [buy 3 300] = Return (Fin 300)"
    by code_simp
  have b: "buy 3 300 # [] = [buy 3 300]" by simp
  have a: "allocate_configs (connected_to ok_exchange ''USDT'') [btc_strategy, eth_strategy]
             [(''USD'', PyNum 50)] [FetchBalance, GetActiveStrategyConfigs] =
           (Return [(''USD'', PyNum 50), (''BTC'', PyNum 300), (''ETH'', PyNum 0)],
            [FetchBalance, GetActiveStrategyConfigs, FetchMyTrades ''BTC/USDT'',
             FetchMyTrades ''ETH/USDT''])"
    by (simp add: btc_strategy_def eth_strategy_def ok_exchange_recent_btc ok_exchange_recent_eth v)
  have fb: "ccxt_fetch_balance ok_exchange [] =
              Return [''free'' \<mapsto> [''USDT'' \<mapsto> 50], ''USDT'' \<mapsto> [''free'' \<mapsto> 50, ''total'' \<mapsto> 60]]"
    by (simp add: ok_exchange_def)
  have cf: "get_active_strategy_configs (example_env ok_exchange [btc_strategy, eth_strategy])
              [FetchBalance] = Return [btc_strategy, eth_strategy]"
    by (simp add: example_env_def)
  have bc: "base_currency (connected_to ok_exchange ''USDT'') = ''USDT''"
    by (simp add: connected_to_def)
  have "get_account_allocation_try (example_env ok_exchange [btc_strategy, eth_strategy])
          (connected_to ok_exchange ''USDT'') [] =
        (Return [(''USD'', PyNum 50), (''BTC'', PyNum 300), (''ETH'', PyNum 0)],
            [FetchBalance, GetActiveStrategyConfigs, FetchMyTrades ''BTC/USDT'',
             FetchMyTrades ''ETH/USDT''])"
    by (simp add: get_account_allocation_try_def connected_to_client fb cf bc a Let_def
        del: allocate_configs.simps)
  from get_account_allocation_loop_done [OF this, of 0 3]
  show ?thesis by (simp add: get_account_allocation_def)
qed

theorem account_allocation_entries_witness:
  "get_account_allocation (example_env ok_exchange [btc_strategy, eth_strategy])
       (connected_to ok_exchange ''USDT'') 3 [] =
     (Return (Some [(''USD'', PyNum 50), (''BTC'', PyNum 300), (''ETH'', PyNum 0)]),
      [FetchBalance, GetActiveStrategyConfigs, FetchMyTrades ''BTC/USDT'',
       FetchMyTrades ''ETH/USDT''])
   \<and> (\<exists>ex balance free configs h0.
           client (connected_to ok_exchange ''USDT'') = Some ex
           \<and> ccxt_fetch_balance ex h0 = Return balance
           \<and> balance ''free'' = Some free
           \<and> get_active_strategy_configs (example_env ok_exchange [btc_strategy, eth_strategy])
                (h0 @ [FetchBalance]) = Return configs
           \<and> fst ` set [(''USD'', PyNum 50), (''BTC'', PyNum 300), (''ETH'', PyNum 0)] =
                insert ''USD'' (config_currency ` set configs)
           \<and> distinct (map fst [(''USD'', PyNum 50), (''BTC'', PyNum 300), (''ETH'', PyNum 0)])
           \<and> (''USD'' \<notin> config_currency ` set configs \<longrightarrow>
                map_of [(''USD'', PyNum 50), (''BTC'', PyNum 300), (''ETH'', PyNum 0)] ''USD'' =
                  Some (case free (base_currency (connected_to ok_exchange ''USDT'')) of
                          None \<Rightarrow> PyNone | Some x \<Rightarrow> PyNum x))
           \<and> (\<forall>cur \<in> config_currency ` set configs.
                 (\<forall>c \<in> set configs. config_currency c = cur \<longrightarrow>
                    (\<forall>h. fst (get_most_recent_trade (connected_to ok_exchange ''USDT'')
                                 (config_symbol c) 3 h)
                            \<in> {Return None, Return (Some [])})) \<longrightarrow>
                 map_of [(''USD'', PyNum 50), (''BTC'', PyNum 300), (''ETH'', PyNum 0)] cur =
                   Some (PyNum 0)))"
  by (rule conjI [OF two_strategy_allocation account_allocation_entries [OF two_strategy_allocation]])

text \<open>
  The claim as written fails: with \<^verbatim>\<open>USDT\<close> as the configured base currency the free balance
  is stored under the key \<^verbatim>\<open>"USD"\<close>, and the mapping has no entry keyed by \<^verbatim>\<open>USDT\<close>.
\<close>

theorem account_allocation_key_is_usd:
  "get_account_allocation (example_env ok_exchange []) (connected_to ok_exchange ''USDT'') 3 [] =
     (Return (Some [(''USD'', PyNum 50)]), [FetchBalance, GetActiveStrategyConfigs])
   \<and> base_currency (connected_to ok_exchange ''USDT'') = ''USDT''
   \<and> map_of [(''USD'', PyNum 50)] ''USDT'' = None"
  using no_strategy_allocation by (simp add: connected_to_def)

end
